theory Spec2Isabelle
  imports Main "HOL-Library.Word"
begin

unbundle bit_operations_syntax

section \<open>The rain gauge firmware (main.c, version 8) as state transformers\<close>

text \<open>
  The firmware keeps all of its data in file-scope variables and in the special function
  registers of the PIC18F46K22. Both are collected in one record; every C function becomes
  a function on that record. Calls into the drivers that are not part of main.c (USART2,
  LoRa), the \<open>__delay_ms\<close> and \<open>SLEEP\<close> built-ins, assignments to the \<open>RED_LED\<close> macro
  and the start of an analogue conversion are appended to a trace, in program order, so
  that what the device does to the outside is visible in the final state.

  The \<open>if(DEBUG)\<close> blocks are compiled with \<open>DEBUG\<close> defined as 0 and are left out.
\<close>

subsection \<open>Constants of main.c\<close>

definition SYNC_WORD :: "8 word" where "SYNC_WORD = 0x55"

text \<open>\<open>TX_FREQ\<close> is 866.5 (MHz) in the source; it is kept here in kHz.\<close>
definition TX_FREQ_kHz :: nat where "TX_FREQ_kHz = 866500"

definition BATT_UVLO :: "16 word" where "BATT_UVLO = 2000"

text \<open>\<open>#define BATT_UVLO_ATOD BATT_UVLO/4\<close>; the only use is \<open>batt>BATT_UVLO_ATOD\<close>,
  where the division binds tighter than the comparison.\<close>
definition BATT_UVLO_ATOD :: "16 word" where "BATT_UVLO_ATOD = BATT_UVLO div 4"

definition DATA_PACKET_LENGTH :: nat where "DATA_PACKET_LENGTH = 50"
definition ID0 :: "8 word" where "ID0 = 0x00"
definition ID1 :: "8 word" where "ID1 = 0x01"
definition SOFTWARE_VERSION :: "8 word" where "SOFTWARE_VERSION = 0x08"

subsection \<open>Observable actions\<close>

datatype event =
    USART2_Start_57600          \<comment> \<open>\<open>USART2_Start(BAUD_57600)\<close>\<close>
  | Delay_ms nat                \<comment> \<open>\<open>__delay_ms(n)\<close>\<close>
  | RedLed bool                 \<comment> \<open>\<open>RED_LED = b\<close>\<close>
  | ADC_Go "5 word" "2 word"    \<comment> \<open>\<open>GO_NOT_DONE = 1\<close> with the channel and Vref+ selected then\<close>
  | LoRaStart nat "8 word"      \<comment> \<open>\<open>LoRaStart(frequency, sync word)\<close>\<close>
  | LoRaClearIRQFlags
  | LoRaTXData "8 word list" nat \<comment> \<open>\<open>LoRaTXData(buffer, length)\<close>\<close>
  | LoRaGetIRQFlags
  | LoRaSleepMode
  | Sleep                       \<comment> \<open>the \<open>SLEEP()\<close> instruction\<close>

fun is_lora :: "event \<Rightarrow> bool" where
  "is_lora (LoRaStart f w) = True"
| "is_lora LoRaClearIRQFlags = True"
| "is_lora (LoRaTXData b n) = True"
| "is_lora LoRaGetIRQFlags = True"
| "is_lora LoRaSleepMode = True"
| "is_lora e = False"

subsection \<open>Variables and registers\<close>

text \<open>
  Port registers (\<open>TRISx\<close>, \<open>LATx\<close>, \<open>ANSELx\<close>) are bytes in which bit \<open>n\<close> belongs to pin
  \<open>Rxn\<close>. Registers that main.c touches only through named bit-fields of the device header
  (\<open>ADCON0bits.CHS\<close>, \<open>INTCON3bits.INT1F\<close>, \<open>PMD0bits.UART2MD\<close>, ...) are kept as one
  field per bit-field, of the bit-field's width; the device header that places them in
  their registers is not among the sources, and no statement below depends on the places.
  \<open>PMD1\<close> and \<open>PMD2\<close> are written as whole bytes; \<open>PMD2bits.ADCMD\<close> is bit 0 of \<open>PMD2\<close>.
\<close>

record mcu =
  tips :: "32 word"
  messageCount :: "32 word"
  txData :: "8 word list"
  batt :: "16 word"
  temp :: "16 word"
  address :: "8 word list"
  TRISA :: "8 word"
  TRISB :: "8 word"
  TRISC :: "8 word"
  TRISD :: "8 word"
  TRISE :: "8 word"
  LATA :: "8 word"
  LATB :: "8 word"
  LATC :: "8 word"
  LATD :: "8 word"
  LATE :: "8 word"
  ANSELA :: "8 word"
  ANSELB :: "8 word"
  ANSELD :: "8 word"
  ANSELE :: "8 word"
  UART2MD :: bool
  UART1MD :: bool
  TMR6MD :: bool
  TMR5MD :: bool
  TMR4MD :: bool
  TMR3MD :: bool
  TMR2MD :: bool
  TMR1MD :: bool
  SPI2MD :: bool
  SPI1MD :: bool
  PMD1 :: "8 word"
  PMD2 :: "8 word"
  CHS :: "5 word"
  GO_NOT_DONE :: bool
  ADON :: bool
  PVCFG :: "2 word"
  NVCFG :: "2 word"
  ACQT :: "3 word"
  ADCS :: "3 word"
  ADFM :: bool
  FVRS :: "2 word"
  FVREN :: bool
  ADRESH :: "8 word"
  ADRESL :: "8 word"
  GIE :: bool
  INTEDG1 :: bool
  INT1E :: bool
  INT1F :: bool
  trace :: "event list"

text \<open>Assignment of \<open>b\<close> to the one-bit field at position \<open>n\<close> of a byte register.\<close>

definition bitfield :: "nat \<Rightarrow> bool \<Rightarrow> 8 word \<Rightarrow> 8 word" where
  "bitfield n b w = (if b then set_bit n w else unset_bit n w)"

definition emit :: "event \<Rightarrow> mcu \<Rightarrow> mcu" where
  "emit e s = s\<lparr>trace := trace s @ [e]\<rparr>"

definition delay_ms :: "nat \<Rightarrow> mcu \<Rightarrow> mcu" where
  "delay_ms n s = emit (Delay_ms n) s"

text \<open>\<open>#define RED_LED LATEbits.LATE2\<close> (defines.h)\<close>

definition RED_LED :: "mcu \<Rightarrow> bool" where
  "RED_LED s = bit (LATE s) 2"

definition set_RED_LED :: "bool \<Rightarrow> mcu \<Rightarrow> mcu" where
  "set_RED_LED b s = emit (RedLed b) (s\<lparr>LATE := bitfield 2 b (LATE s)\<rparr>)"

subsection \<open>The interrupt handler\<close>

definition Isr :: "mcu \<Rightarrow> mcu" where
  "Isr s =
    (if INT1F s then
       (let s = s\<lparr>tips := tips s + 1\<rparr>;
            s = s\<lparr>INT1F := False\<rparr>
        in set_RED_LED True s)
     else s)"

subsection \<open>Bring-up and bring-down\<close>

definition configureIO :: "mcu \<Rightarrow> mcu" where
  "configureIO s =
    (let s = s\<lparr>UART2MD := False\<rparr>;
         s = s\<lparr>SPI2MD := False\<rparr>;
         s = s\<lparr>PMD2 := bitfield 0 False (PMD2 s)\<rparr>;
         s = s\<lparr>ANSELA := bitfield 2 False (ANSELA s)\<rparr>;
         s = s\<lparr>TRISA := bitfield 2 False (TRISA s)\<rparr>;
         s = s\<lparr>LATA := bitfield 2 False (LATA s)\<rparr>;
         s = s\<lparr>ANSELE := bitfield 1 False (ANSELE s)\<rparr>;
         s = s\<lparr>ANSELE := bitfield 2 False (ANSELE s)\<rparr>;
         s = s\<lparr>ANSELB := bitfield 4 False (ANSELB s)\<rparr>;
         s = s\<lparr>TRISE := bitfield 1 False (TRISE s)\<rparr>;
         s = s\<lparr>TRISE := bitfield 2 False (TRISE s)\<rparr>;
         s = s\<lparr>ANSELB := bitfield 1 False (ANSELB s)\<rparr>;
         s = s\<lparr>TRISB := bitfield 1 True (TRISB s)\<rparr>;
         s = emit USART2_Start_57600 s;
         s = s\<lparr>INT1E := True\<rparr>;
         s = s\<lparr>INT1F := False\<rparr>;
         s = s\<lparr>GIE := True\<rparr>
     in s)"

definition disablePeripherals :: "mcu \<Rightarrow> mcu" where
  "disablePeripherals s =
    (let s = s\<lparr>ADON := False\<rparr>;
         s = s\<lparr>TRISA := 0\<rparr>;
         s = s\<lparr>TRISB := 0x02\<rparr>;
         s = s\<lparr>TRISC := 0\<rparr>;
         s = s\<lparr>TRISD := 0\<rparr>;
         s = s\<lparr>TRISE := 0\<rparr>;
         s = s\<lparr>LATA := 0\<rparr>;
         s = s\<lparr>LATB := 0\<rparr>;
         s = s\<lparr>LATC := 0\<rparr>;
         s = s\<lparr>LATD := 0\<rparr>;
         s = s\<lparr>LATE := 0\<rparr>;
         s = s\<lparr>LATA := bitfield 2 True (LATA s)\<rparr>;
         s = s\<lparr>TRISD := bitfield 1 True (TRISD s)\<rparr>;
         s = s\<lparr>ANSELD := bitfield 1 False (ANSELD s)\<rparr>;
         s = s\<lparr>LATD := bitfield 3 True (LATD s)\<rparr>;
         s = s\<lparr>UART2MD := True\<rparr>;
         s = s\<lparr>UART1MD := True\<rparr>;
         s = s\<lparr>TMR6MD := True\<rparr>;
         s = s\<lparr>TMR5MD := True\<rparr>;
         s = s\<lparr>TMR4MD := True\<rparr>;
         s = s\<lparr>TMR3MD := True\<rparr>;
         s = s\<lparr>TMR2MD := True\<rparr>;
         s = s\<lparr>TMR1MD := True\<rparr>;
         s = s\<lparr>SPI2MD := True\<rparr>;
         s = s\<lparr>SPI1MD := True\<rparr>;
         s = s\<lparr>PMD1 := 0xFF\<rparr>;
         s = s\<lparr>PMD2 := 0xFF\<rparr>
     in s)"

subsection \<open>The analogue sampler\<close>

definition setupAtoD :: "mcu \<Rightarrow> mcu" where
  "setupAtoD s =
    (let s = s\<lparr>ANSELA := bitfield 0 True (ANSELA s)\<rparr>;
         s = s\<lparr>ANSELA := bitfield 1 True (ANSELA s)\<rparr>;
         s = s\<lparr>TRISA := bitfield 0 True (TRISA s)\<rparr>;
         s = s\<lparr>TRISA := bitfield 1 True (TRISA s)\<rparr>;
         s = s\<lparr>PVCFG := 0\<rparr>;
         s = s\<lparr>NVCFG := 0\<rparr>;
         s = s\<lparr>FVRS := 1\<rparr>;
         s = s\<lparr>FVREN := True\<rparr>;
         s = s\<lparr>CHS := 0\<rparr>;
         s = s\<lparr>ACQT := 2\<rparr>;
         s = s\<lparr>ADCS := 6\<rparr>;
         s = s\<lparr>ADFM := True\<rparr>;
         s = s\<lparr>ADON := True\<rparr>
     in s)"

text \<open>
  What the converter does during one conversion is not decided by the program: the value
  that the \<open>k\<close>-th read of \<open>ADCON0bits.GO_NOT_DONE\<close> after the start returns, and the two
  result bytes that the hardware has loaded when the flag reads clear.
\<close>

record conversion =
  busy :: "nat \<Rightarrow> bool"
  result_high :: "8 word"
  result_low :: "8 word"

text \<open>\<open>while(ADCON0bits.GO_NOT_DONE){}\<close>: the loop has no bound. The result is the index
  of the read that found the flag clear; \<open>None\<close> stands for a loop that never ends.\<close>

partial_function (option) wait_conversion :: "(nat \<Rightarrow> bool) \<Rightarrow> nat \<Rightarrow> nat option" where
  "wait_conversion go k = (if go k then wait_conversion go (Suc k) else Some k)"

definition start_conversion :: "mcu \<Rightarrow> mcu" where
  "start_conversion s = emit (ADC_Go (CHS s) (PVCFG s)) (s\<lparr>GO_NOT_DONE := True\<rparr>)"

definition conversion_done :: "conversion \<Rightarrow> mcu \<Rightarrow> mcu" where
  "conversion_done c s =
     s\<lparr>GO_NOT_DONE := False, ADRESH := result_high c, ADRESL := result_low c\<rparr>"

text \<open>\<open>uint16_t result = ADRESH * 256 + ADRESL\<close>, in 16-bit arithmetic.\<close>

definition read_ADRES :: "mcu \<Rightarrow> 16 word" where
  "read_ADRES s = ucast (ADRESH s) * 256 + ucast (ADRESL s)"

definition readBattery :: "conversion \<Rightarrow> mcu \<Rightarrow> (16 word \<times> mcu) option" where
  "readBattery c s =
    (let s = s\<lparr>PVCFG := 2\<rparr>;
         s = start_conversion s
     in case wait_conversion (busy c) 0 of
          None \<Rightarrow> None
        | Some k \<Rightarrow> (let s = conversion_done c s in Some (read_ADRES s, s)))"

definition readTemperature :: "conversion \<Rightarrow> mcu \<Rightarrow> (16 word \<times> mcu) option" where
  "readTemperature c s =
    (let s = s\<lparr>PVCFG := 0\<rparr>;
         s = s\<lparr>CHS := 1\<rparr>;
         s = start_conversion s
     in case wait_conversion (busy c) 0 of
          None \<Rightarrow> None
        | Some k \<Rightarrow> (let s = conversion_done c s in Some (read_ADRES s, s)))"

subsection \<open>Building the frame (transmitData, up to the call of LoRaStart)\<close>

text \<open>\<open>for(uint8_t i=0;i<8;i++){ txData[i+3] = address[i]; }\<close>\<close>

function copy_address :: "nat \<Rightarrow> 8 word list \<Rightarrow> 8 word list \<Rightarrow> 8 word list" where
  "copy_address i addr buf =
     (if i < 8 then copy_address (i + 1) addr (buf[i + 3 := addr ! i]) else buf)"
  by pat_completeness auto
termination
  by (relation "measure (\<lambda>(i, addr, buf). 8 - i)") auto

text \<open>\<open>for(uint8_t i=28;i<48;i++){ txData[i] = 0; }\<close>\<close>

function zero_fill :: "nat \<Rightarrow> 8 word list \<Rightarrow> 8 word list" where
  "zero_fill i buf = (if i < 48 then zero_fill (i + 1) (buf[i := 0]) else buf)"
  by pat_completeness auto
termination
  by (relation "measure (\<lambda>(i, buf). 48 - i)") auto

declare copy_address.simps [simp del]
declare zero_fill.simps [simp del]

text \<open>The assignments to \<open>txData[0]\<close> ... \<open>txData[47]\<close>, in the order of the source.\<close>

definition frame_body :: "mcu \<Rightarrow> mcu" where
  "frame_body s =
    (let s = s\<lparr>txData := (txData s)[0 := of_nat DATA_PACKET_LENGTH]\<rparr>;
         s = s\<lparr>txData := (txData s)[1 := ID0]\<rparr>;
         s = s\<lparr>txData := (txData s)[2 := ID1]\<rparr>;
         s = s\<lparr>txData := copy_address 0 (address s) (txData s)\<rparr>;
         s = s\<lparr>txData := (txData s)[11 := SOFTWARE_VERSION]\<rparr>;
         s = s\<lparr>txData := (txData s)[12 := ucast (drop_bit 24 (messageCount s) AND 0xFF)]\<rparr>;
         s = s\<lparr>txData := (txData s)[13 := ucast (drop_bit 16 (messageCount s) AND 0xFF)]\<rparr>;
         s = s\<lparr>txData := (txData s)[14 := ucast (drop_bit 8 (messageCount s) AND 0xFF)]\<rparr>;
         s = s\<lparr>txData := (txData s)[15 := ucast (messageCount s AND 0xFF)]\<rparr>;
         s = s\<lparr>txData := (txData s)[16 := ucast (drop_bit 8 (batt s) AND 0xFF)]\<rparr>;
         s = s\<lparr>txData := (txData s)[17 := ucast (batt s AND 0xFF)]\<rparr>;
         s = s\<lparr>txData := (txData s)[18 := ucast (drop_bit 8 (temp s) AND 0xFF)]\<rparr>;
         s = s\<lparr>txData := (txData s)[19 := ucast (temp s AND 0xFF)]\<rparr>;
         s = s\<lparr>txData := (txData s)[20 := 0]\<rparr>;
         s = s\<lparr>txData := (txData s)[21 := 0]\<rparr>;
         s = s\<lparr>txData := (txData s)[22 := 0]\<rparr>;
         s = s\<lparr>txData := (txData s)[23 := 0]\<rparr>;
         s = s\<lparr>txData := (txData s)[24 := ucast (drop_bit 24 (tips s) AND 0xFF)]\<rparr>;
         s = s\<lparr>txData := (txData s)[25 := ucast (drop_bit 16 (tips s) AND 0xFF)]\<rparr>;
         s = s\<lparr>txData := (txData s)[26 := ucast (drop_bit 8 (tips s) AND 0xFF)]\<rparr>;
         s = s\<lparr>txData := (txData s)[27 := ucast (tips s AND 0xFF)]\<rparr>;
         s = s\<lparr>txData := zero_fill 28 (txData s)\<rparr>
     in s)"

text \<open>
  \<open>CRC16\<close> (CRC16.h) is not part of main.c. It is a parameter: a function from the bytes
  it is given to a 16-bit value. The call \<open>CRC16(txData, DATA_PACKET_LENGTH-2)\<close> hands it
  the buffer and a length, that is, the first \<open>DATA_PACKET_LENGTH-2\<close> bytes of the buffer.
\<close>

type_synonym checksum = "8 word list \<Rightarrow> 16 word"

definition call_CRC16 :: "checksum \<Rightarrow> 8 word list \<Rightarrow> nat \<Rightarrow> 16 word" where
  "call_CRC16 crc buf len = crc (take len buf)"

definition append_crc :: "checksum \<Rightarrow> mcu \<Rightarrow> mcu" where
  "append_crc crc s =
    (let calcCRC = call_CRC16 crc (txData s) (DATA_PACKET_LENGTH - 2);
         s = s\<lparr>txData := (txData s)[49 := ucast (drop_bit 8 (calcCRC AND 0xFF00))]\<rparr>;
         s = s\<lparr>txData := (txData s)[48 := ucast (calcCRC AND 0xFF)]\<rparr>
     in s)"

definition buildFrame :: "checksum \<Rightarrow> mcu \<Rightarrow> mcu" where
  "buildFrame crc s = append_crc crc (frame_body s)"

subsection \<open>Sending the frame (the rest of transmitData)\<close>

text \<open>
  \<open>for(j=0;j<50;j++){ flags = LoRaGetIRQFlags(); if(flags>0) break; __delay_ms(10); }\<close>
  The value that the \<open>j\<close>-th call of \<open>LoRaGetIRQFlags\<close> returns is given by \<open>irq j\<close>.
  The function returns the final value of \<open>j\<close> with the state.
\<close>

function wait_tx :: "(nat \<Rightarrow> 8 word) \<Rightarrow> nat \<Rightarrow> mcu \<Rightarrow> nat \<times> mcu" where
  "wait_tx irq j s =
     (if j < 50 then
        (let flags = irq j;
             s = emit LoRaGetIRQFlags s
         in if flags > 0 then (j, s)
            else wait_tx irq (j + 1) (delay_ms 10 s))
      else (j, s))"
  by pat_completeness auto
termination
  by (relation "measure (\<lambda>(irq, j, s). 50 - j)") auto

declare wait_tx.simps [simp del]

definition transmitData :: "checksum \<Rightarrow> (nat \<Rightarrow> 8 word) \<Rightarrow> mcu \<Rightarrow> mcu" where
  "transmitData crc irq s =
    (let s = buildFrame crc s;
         s = emit (LoRaStart TX_FREQ_kHz SYNC_WORD) s;
         s = emit LoRaClearIRQFlags s;
         s = set_RED_LED True s;
         s = emit (LoRaTXData (txData s) DATA_PACKET_LENGTH) s;
         s = snd (wait_tx irq 0 s);
         s = emit LoRaSleepMode s;
         s = delay_ms 10 s;
         s = s\<lparr>messageCount := messageCount s + 1\<rparr>;
         s = set_RED_LED False s
     in s)"

subsection \<open>The main cycle\<close>

text \<open>The \<open>else\<close> branch of \<open>if(batt>BATT_UVLO_ATOD)\<close>: the red LED flashes three times.\<close>

definition fault_blink :: "mcu \<Rightarrow> mcu" where
  "fault_blink s =
    (let s = set_RED_LED True s;
         s = delay_ms 300 s;
         s = set_RED_LED False s;
         s = delay_ms 300 s;
         s = set_RED_LED True s;
         s = delay_ms 300 s;
         s = set_RED_LED False s;
         s = delay_ms 300 s;
         s = set_RED_LED True s;
         s = delay_ms 300 s;
         s = set_RED_LED False s;
         s = delay_ms 300 s
     in s)"

text \<open>What the hardware answers during one cycle.\<close>

record surroundings =
  battery_conversion :: conversion
  temperature_conversion :: conversion
  irq_flags :: "nat \<Rightarrow> 8 word"

text \<open>The test \<open>batt>BATT_UVLO_ATOD\<close> of main and the branch it selects.\<close>

definition transmits :: "16 word \<Rightarrow> bool" where
  "transmits b = (b > BATT_UVLO_ATOD)"

definition decide :: "checksum \<Rightarrow> (nat \<Rightarrow> 8 word) \<Rightarrow> mcu \<Rightarrow> mcu" where
  "decide crc irq s = (if transmits (batt s) then transmitData crc irq s else fault_blink s)"

text \<open>\<open>INTCON2bits.INTEDG1=0\<close>, the statement of main before the label \<open>start\<close>.\<close>

definition main_entry :: "mcu \<Rightarrow> mcu" where
  "main_entry s = s\<lparr>INTEDG1 := False\<rparr>"

text \<open>
  One pass from the label \<open>start\<close> to \<open>goto start\<close>, without an interrupt in between.
  First the bring-up and the two readings (up to \<open>temp = readTemperature()\<close>); \<open>None\<close>:
  one of the two conversion waits never ends.
\<close>

definition sample :: "surroundings \<Rightarrow> mcu \<Rightarrow> mcu option" where
  "sample env s =
    (let s = configureIO s;
         s = setupAtoD s;
         s = delay_ms 5 s
     in case readBattery (battery_conversion env) s of
          None \<Rightarrow> None
        | Some (b, s) \<Rightarrow>
           (let s = s\<lparr>batt := b\<rparr>
            in case readTemperature (temperature_conversion env) s of
                 None \<Rightarrow> None
               | Some (t, s) \<Rightarrow> Some (s\<lparr>temp := t\<rparr>)))"

definition cycle :: "checksum \<Rightarrow> surroundings \<Rightarrow> mcu \<Rightarrow> mcu option" where
  "cycle crc env s =
    (case sample env s of
       None \<Rightarrow> None
     | Some s \<Rightarrow>
        (let s = decide crc (irq_flags env) s;
             s = disablePeripherals s;
             s = emit Sleep s
         in Some s))"

subsection \<open>Pins\<close>

text \<open>A pin is an input when its \<open>TRIS\<close> bit is set; as an output it drives the level of
  its \<open>LAT\<close> bit.\<close>

datatype port = PortA | PortB | PortC | PortD | PortE

fun TRIS :: "port \<Rightarrow> mcu \<Rightarrow> 8 word" where
  "TRIS PortA s = TRISA s"
| "TRIS PortB s = TRISB s"
| "TRIS PortC s = TRISC s"
| "TRIS PortD s = TRISD s"
| "TRIS PortE s = TRISE s"

fun LAT :: "port \<Rightarrow> mcu \<Rightarrow> 8 word" where
  "LAT PortA s = LATA s"
| "LAT PortB s = LATB s"
| "LAT PortC s = LATC s"
| "LAT PortD s = LATD s"
| "LAT PortE s = LATE s"

definition is_input :: "mcu \<Rightarrow> port \<Rightarrow> nat \<Rightarrow> bool" where
  "is_input s p n = bit (TRIS p s) n"

definition output_low :: "mcu \<Rightarrow> port \<Rightarrow> nat \<Rightarrow> bool" where
  "output_low s p n = (\<not> bit (TRIS p s) n \<and> \<not> bit (LAT p s) n)"

definition output_high :: "mcu \<Rightarrow> port \<Rightarrow> nat \<Rightarrow> bool" where
  "output_high s p n = (\<not> bit (TRIS p s) n \<and> bit (LAT p s) n)"

subsection \<open>A concrete device\<close>

text \<open>
  The variables hold their initialisers of main.c (\<open>tips=0\<close>, \<open>messageCount=0\<close>, the
  zero-initialised \<open>txData\<close>, the eight address bytes); the port registers are all inputs
  and analogue, the other registers are clear.
\<close>

definition power_on :: mcu where
  "power_on =
    \<lparr> tips = 0, messageCount = 0, txData = replicate 50 0, batt = 0, temp = 0,
      address = [0xE6, 0xBA, 0x08, 0xFB, 0x3A, 0x4F, 0x5E, 0xCE],
      TRISA = 0xFF, TRISB = 0xFF, TRISC = 0xFF, TRISD = 0xFF, TRISE = 0xFF,
      LATA = 0, LATB = 0, LATC = 0, LATD = 0, LATE = 0,
      ANSELA = 0xFF, ANSELB = 0xFF, ANSELD = 0xFF, ANSELE = 0xFF,
      UART2MD = False, UART1MD = False, TMR6MD = False, TMR5MD = False, TMR4MD = False,
      TMR3MD = False, TMR2MD = False, TMR1MD = False, SPI2MD = False, SPI1MD = False,
      PMD1 = 0, PMD2 = 0,
      CHS = 0, GO_NOT_DONE = False, ADON = False, PVCFG = 0, NVCFG = 0,
      ACQT = 0, ADCS = 0, ADFM = False, FVRS = 0, FVREN = False,
      ADRESH = 0, ADRESL = 0,
      GIE = False, INTEDG1 = True, INT1E = False, INT1F = False,
      trace = [] \<rparr>"

text \<open>A conversion whose flag reads clear at the third read, with the given result bytes.\<close>

definition conversion_of :: "8 word \<Rightarrow> 8 word \<Rightarrow> conversion" where
  "conversion_of h l = \<lparr> busy = (\<lambda>k. k < 2), result_high = h, result_low = l \<rparr>"

text \<open>A conversion whose flag never reads clear.\<close>

definition stuck_conversion :: conversion where
  "stuck_conversion = \<lparr> busy = (\<lambda>k. True), result_high = 0, result_low = 0 \<rparr>"

text \<open>Surroundings with the given battery and temperature result bytes, and a transceiver
  whose status flags read zero three times and then 8.\<close>

definition surroundings_of :: "8 word \<Rightarrow> 8 word \<Rightarrow> 8 word \<Rightarrow> 8 word \<Rightarrow> surroundings" where
  "surroundings_of bh bl tmph tmpl =
     \<lparr> battery_conversion = conversion_of bh bl,
       temperature_conversion = conversion_of tmph tmpl,
       irq_flags = (\<lambda>k. if k < 3 then 0 else 8) \<rparr>"

text \<open>The two arrays have the sizes of their declarations.\<close>

definition well_sized :: "mcu \<Rightarrow> bool" where
  "well_sized s = (length (txData s) = DATA_PACKET_LENGTH \<and> length (address s) = 8)"

subsection \<open>The frame layout as the specification tabulates it\<close>

text \<open>
  The table of the telemetry frame (section 6 of the specification), read as a function
  from the offset to the byte, for the offsets 0 to 47 that precede the checksum: length,
  identifier pair, address, version, then the big-endian counters and readings with the
  reserved bytes zero. It is compared with what \<open>frame_body\<close> writes.
\<close>

definition spec_frame_byte ::
  "8 word list \<Rightarrow> 32 word \<Rightarrow> 16 word \<Rightarrow> 16 word \<Rightarrow> 32 word \<Rightarrow> nat \<Rightarrow> 8 word" where
  "spec_frame_byte addr mc b t tp i =
    (if i = 0 then 50
     else if i = 1 then 0x00
     else if i = 2 then 0x01
     else if i < 11 then addr ! (i - 3)
     else if i = 11 then 0x08
     else if i < 16 then ucast (drop_bit (8 * (15 - i)) mc)
     else if i < 18 then ucast (drop_bit (8 * (17 - i)) b)
     else if i < 20 then ucast (drop_bit (8 * (19 - i)) t)
     else if i < 24 then 0
     else if i < 28 then ucast (drop_bit (8 * (27 - i)) tp)
     else 0)"

text \<open>The end-to-end scenario of the specification: tip count 3, message count 7,
  battery 600, temperature 450, on the device of main.c.\<close>

definition scenario :: mcu where
  "scenario = power_on\<lparr>tips := 3, messageCount := 7, batt := 600, temp := 450\<rparr>"

text \<open>A stand-in for the checksum function where a concrete one is needed: the sum of
  the bytes it is given.\<close>

definition byte_sum :: checksum where
  "byte_sum bs = sum_list (map ucast bs)"

section \<open>Auxiliary facts\<close>

subsection \<open>Bytes of a word\<close>

lemma FF_mask: "(0xFF :: 'a::len word) = mask 8"
  by (simp add: mask_eq_exp_minus_1)

lemma low_byte: "unat (ucast ((w :: 'a::len word) AND 0xFF) :: 8 word) = unat w mod 256"
proof -
  have "w AND 0xFF = take_bit 8 w"
    by (simp add: FF_mask take_bit_eq_mask)
  then have "unat (ucast (w AND 0xFF) :: 8 word) = take_bit 8 (take_bit 8 (unat w))"
    by (simp only: unsigned_ucast_eq unsigned_take_bit_eq) simp
  then show ?thesis
    by (simp add: take_bit_eq_mod)
qed

lemma split_bytes32:
  fixes u :: nat
  assumes "u < 4294967296"
  shows "(u div 16777216 mod 256) * 16777216 + (u div 65536 mod 256) * 65536
         + (u div 256 mod 256) * 256 + u mod 256 = u"
proof -
  have a: "u mod 65536 = 256 * (u div 256 mod 256) + u mod 256"
    using mod_mult2_eq [of u 256 256] by simp
  have b: "u mod 16777216 = 65536 * (u div 65536 mod 256) + u mod 65536"
    using mod_mult2_eq [of u 65536 256] by simp
  have c: "u mod 4294967296 = 16777216 * (u div 16777216 mod 256) + u mod 16777216"
    using mod_mult2_eq [of u 16777216 256] by simp
  have "u mod 4294967296 = u"
    using assms by simp
  with a b c show ?thesis by simp
qed

lemma split_bytes16:
  fixes u :: nat
  assumes "u < 65536"
  shows "(u div 256 mod 256) * 256 + u mod 256 = u"
proof -
  have a: "u mod 65536 = 256 * (u div 256 mod 256) + u mod 256"
    using mod_mult2_eq [of u 256 256] by simp
  have "u mod 65536 = u"
    using assms by simp
  with a show ?thesis by simp
qed

lemma split_bytes32_pow:
  fixes u :: nat
  assumes "u < 2 ^ 32"
  shows "(u div 2 ^ 24 mod 256) * 2 ^ 24 + (u div 2 ^ 16 mod 256) * 2 ^ 16
         + (u div 2 ^ 8 mod 256) * 2 ^ 8 + u mod 256 = u"
  using split_bytes32 [of u] assms by simp

lemma split_bytes16_pow:
  fixes u :: nat
  assumes "u < 2 ^ 16"
  shows "(u div 2 ^ 8 mod 256) * 2 ^ 8 + u mod 256 = u"
  using split_bytes16 [of u] assms by simp

lemma be32:
  fixes w :: "32 word"
  shows "unat (ucast (drop_bit 24 w AND 0xFF) :: 8 word) * 2 ^ 24
       + unat (ucast (drop_bit 16 w AND 0xFF) :: 8 word) * 2 ^ 16
       + unat (ucast (drop_bit 8 w AND 0xFF) :: 8 word) * 2 ^ 8
       + unat (ucast (w AND 0xFF) :: 8 word) = unat w"
proof -
  have "unat w < 2 ^ 32" using unsigned_less [of w] by simp
  from split_bytes32_pow [OF this] show ?thesis
    by (simp only: low_byte unat_drop_bit_eq drop_bit_eq_div [where ?'a = nat])
qed

lemma be16:
  fixes w :: "16 word"
  shows "unat (ucast (drop_bit 8 w AND 0xFF) :: 8 word) * 2 ^ 8
       + unat (ucast (w AND 0xFF) :: 8 word) = unat w"
proof -
  have "unat w < 2 ^ 16" using unsigned_less [of w] by simp
  from split_bytes16_pow [OF this] show ?thesis
    by (simp only: low_byte unat_drop_bit_eq drop_bit_eq_div [where ?'a = nat])
qed

lemma crc_hi_word: "(ucast (drop_bit 8 ((c :: 16 word) AND 0xFF00)) :: 8 word) = ucast (drop_bit 8 c AND 0xFF)"
proof -
  have *: "(0xFF00 :: 16 word) = push_bit 8 (mask 8)" by (simp add: mask_eq_exp_minus_1)
  show ?thesis unfolding * FF_mask
    by (rule bit_word_eqI) (auto simp: bit_simps)
qed

subsection \<open>The two copy loops\<close>

lemma copy_address_length [simp]: "length (copy_address i addr buf) = length buf"
  by (induction i addr buf rule: copy_address.induct) (simp add: copy_address.simps)

lemma zero_fill_length [simp]: "length (zero_fill i buf) = length buf"
  by (induction i buf rule: zero_fill.induct) (simp add: zero_fill.simps)

lemma copy_address_nth:
  "j < length buf \<Longrightarrow>
   copy_address i addr buf ! j = (if i + 3 \<le> j \<and> j < 11 then addr ! (j - 3) else buf ! j)"
proof (induction i addr buf rule: copy_address.induct)
  case (1 i addr buf)
  show ?case
  proof (cases "i < 8")
    case True
    have "j = i + 3 \<or> j < i + 3 \<or> i + 4 \<le> j" by arith
    with True 1 show ?thesis
      by (subst copy_address.simps) (auto simp: nth_list_update)
  next
    case False
    then show ?thesis
      by (subst copy_address.simps) auto
  qed
qed

lemma zero_fill_nth:
  "j < length buf \<Longrightarrow> zero_fill i buf ! j = (if i \<le> j \<and> j < 48 then 0 else buf ! j)"
proof (induction i buf rule: zero_fill.induct)
  case (1 i buf)
  show ?case
  proof (cases "i < 48")
    case True
    with 1 show ?thesis
      by (subst zero_fill.simps) (auto simp: nth_list_update)
  next
    case False
    then show ?thesis
      by (subst zero_fill.simps) auto
  qed
qed

subsection \<open>The frame\<close>

lemma ucast_low: "(ucast ((w :: 'a::len word) AND 0xFF) :: 8 word) = ucast w"
  unfolding FF_mask by (rule bit_word_eqI) (auto simp: bit_simps dest: bit_imp_le_length)

lemma frame_body_eq: "frame_body s = s\<lparr>txData := txData (frame_body s)\<rparr>"
  by (simp add: frame_body_def Let_def)

lemma frame_body_length [simp]: "length (txData (frame_body s)) = length (txData s)"
  by (simp add: frame_body_def Let_def)

lemma frame_body_nth:
  assumes "length (txData s) = 50" and "i < 48"
  shows "txData (frame_body s) ! i =
         spec_frame_byte (address s) (messageCount s) (batt s) (temp s) (tips s) i"
  using assms
  apply (simp add: frame_body_def Let_def nth_list_update zero_fill_nth copy_address_nth
      ucast_low DATA_PACKET_LENGTH_def ID0_def ID1_def SOFTWARE_VERSION_def)
  apply (auto simp: spec_frame_byte_def)
  done

lemma append_crc_txData:
  "txData (append_crc crc s) =
   (txData s)[49 := ucast (drop_bit 8 (crc (take 48 (txData s)) AND 0xFF00)),
              48 := ucast (crc (take 48 (txData s)) AND 0xFF)]"
  by (simp add: append_crc_def Let_def call_CRC16_def DATA_PACKET_LENGTH_def)

lemma buildFrame_eq: "buildFrame crc s = s\<lparr>txData := txData (buildFrame crc s)\<rparr>"
  by (simp add: buildFrame_def append_crc_def frame_body_def Let_def)

lemma buildFrame_length [simp]: "length (txData (buildFrame crc s)) = length (txData s)"
  by (simp add: buildFrame_def append_crc_txData)

lemma buildFrame_nth_body:
  assumes "length (txData s) = 50" and "i < 48"
  shows "txData (buildFrame crc s) ! i = txData (frame_body s) ! i"
  using assms by (simp add: buildFrame_def append_crc_txData)

lemma buildFrame_take:
  assumes "length (txData s) = 50"
  shows "take 48 (txData (buildFrame crc s)) = take 48 (txData (frame_body s))"
  using assms by (simp add: buildFrame_def append_crc_txData)

lemma buildFrame_crc:
  assumes "length (txData s) = 50"
  shows "txData (buildFrame crc s) ! 48 = ucast (crc (take 48 (txData (frame_body s))) AND 0xFF)"
    and "txData (buildFrame crc s) ! 49 =
           ucast (drop_bit 8 (crc (take 48 (txData (frame_body s))) AND 0xFF00))"
  using assms by (simp_all add: buildFrame_def append_crc_txData)

lemma buildFrame_nth:
  assumes "well_sized s" and "i < 48"
  shows "txData (buildFrame crc s) ! i =
         spec_frame_byte (address s) (messageCount s) (batt s) (temp s) (tips s) i"
  using assms
  by (simp add: well_sized_def DATA_PACKET_LENGTH_def buildFrame_nth_body frame_body_nth)

lemmas be32_plain = be32 [unfolded ucast_low]
lemmas be16_plain = be16 [unfolded ucast_low]

lemma frame_same_inputs:
  assumes "well_sized s1" and "well_sized s2"
    and "address s1 = address s2" and "messageCount s1 = messageCount s2"
    and "batt s1 = batt s2" and "temp s1 = temp s2" and "tips s1 = tips s2"
  shows "txData (buildFrame crc s1) = txData (buildFrame crc s2)"
proof -
  from assms have len: "length (txData s1) = 50" "length (txData s2) = 50"
    by (simp_all add: well_sized_def DATA_PACKET_LENGTH_def)
  have body: "txData (frame_body s1) ! i = txData (frame_body s2) ! i" if "i < 48" for i
    using that len assms by (simp add: frame_body_nth)
  have tk: "take 48 (txData (frame_body s1)) = take 48 (txData (frame_body s2))"
    by (rule nth_take_lemma) (simp_all add: len body)
  show ?thesis
  proof (rule nth_equalityI)
    show "length (txData (buildFrame crc s1)) = length (txData (buildFrame crc s2))"
      by (simp add: len)
  next
    fix i assume "i < length (txData (buildFrame crc s1))"
    then have "i < 48 \<or> i = 48 \<or> i = 49" by (simp add: len) arith
    then show "txData (buildFrame crc s1) ! i = txData (buildFrame crc s2) ! i"
      using len body tk by (auto simp: buildFrame_nth_body buildFrame_crc)
  qed
qed

subsection \<open>The conversion wait\<close>

lemma wait_conversion_clear:
  "\<not> go (k + d) \<Longrightarrow>
   \<exists>r. wait_conversion go k = Some r \<and> k \<le> r \<and> \<not> go r \<and> (\<forall>j. k \<le> j \<and> j < r \<longrightarrow> go j)"
proof (induction d arbitrary: k)
  case 0
  then show ?case by (subst wait_conversion.simps) auto
next
  case (Suc d)
  show ?case
  proof (cases "go k")
    case True
    from Suc.prems have "\<not> go (Suc k + d)" by simp
    from Suc.IH [OF this] obtain r where
      r: "wait_conversion go (Suc k) = Some r" "Suc k \<le> r" "\<not> go r"
         "\<forall>j. Suc k \<le> j \<and> j < r \<longrightarrow> go j"
      by blast
    have "\<forall>j. k \<le> j \<and> j < r \<longrightarrow> go j"
    proof (intro allI impI)
      fix j assume "k \<le> j \<and> j < r"
      then have "j = k \<or> (Suc k \<le> j \<and> j < r)" by arith
      with True r(4) show "go j" by blast
    qed
    with True r show ?thesis
      by (subst wait_conversion.simps) auto
  next
    case False
    then show ?thesis by (subst wait_conversion.simps) auto
  qed
qed

lemma wait_conversion_Some_clear:
  assumes "wait_conversion go k = Some r"
  shows "\<not> go r"
  by (rule wait_conversion.raw_induct [OF _ assms, where P = "\<lambda>go k r. \<not> go r"])
     (auto split: if_splits)

lemma wait_conversion_stuck: "(\<forall>n. go n) \<Longrightarrow> wait_conversion go k = None"
  using wait_conversion_Some_clear [of go k] by (cases "wait_conversion go k") auto

lemma wait_conversion_returns: "\<not> go n \<Longrightarrow> \<exists>r. wait_conversion go 0 = Some r"
  using wait_conversion_clear [of go 0 n] by auto

subsection \<open>The two readings\<close>

lemma readBattery_returns:
  assumes "\<not> busy c n"
  shows "readBattery c s =
    Some (ucast (result_high c) * 256 + ucast (result_low c),
          s\<lparr>PVCFG := 2, GO_NOT_DONE := False, ADRESH := result_high c, ADRESL := result_low c,
            trace := trace s @ [ADC_Go (CHS s) 2]\<rparr>)"
proof -
  from wait_conversion_returns [of "busy c" n] assms obtain r where "wait_conversion (busy c) 0 = Some r" by blast
  then show ?thesis
    by (simp add: readBattery_def Let_def start_conversion_def conversion_done_def
        read_ADRES_def emit_def)
qed

lemma readTemperature_returns:
  assumes "\<not> busy c n"
  shows "readTemperature c s =
    Some (ucast (result_high c) * 256 + ucast (result_low c),
          s\<lparr>PVCFG := 0, CHS := 1, GO_NOT_DONE := False, ADRESH := result_high c,
            ADRESL := result_low c, trace := trace s @ [ADC_Go 1 0]\<rparr>)"
proof -
  from wait_conversion_returns [of "busy c" n] assms obtain r where "wait_conversion (busy c) 0 = Some r" by blast
  then show ?thesis
    by (simp add: readTemperature_def Let_def start_conversion_def conversion_done_def
        read_ADRES_def emit_def)
qed

lemma readBattery_hangs: "(\<forall>n. busy c n) \<Longrightarrow> readBattery c s = None"
  by (simp add: readBattery_def Let_def wait_conversion_stuck)

lemma readTemperature_hangs: "(\<forall>n. busy c n) \<Longrightarrow> readTemperature c s = None"
  by (simp add: readTemperature_def Let_def wait_conversion_stuck)

lemma ADRES_value:
  "unat (ucast (h :: 8 word) * 256 + ucast (l :: 8 word) :: 16 word) = unat h * 256 + unat l"
proof -
  have "unat h < 256" "unat l < 256"
    using unsigned_less [of h] unsigned_less [of l] by simp_all
  then have "unat h * 256 + unat l < 65536" by simp
  then show ?thesis
    by (simp add: unat_word_ariths unsigned_ucast_eq take_bit_eq_mod)
qed

subsection \<open>The completion poll\<close>

lemma wait_tx_timeout:
  assumes "\<forall>k<50. irq k = 0" and "j \<le> 50"
  shows "wait_tx irq j s =
         (50, s\<lparr>trace := trace s @ concat (replicate (50 - j) [LoRaGetIRQFlags, Delay_ms 10])\<rparr>)"
  using assms
proof (induction irq j s rule: wait_tx.induct)
  case (1 irq j s)
  show ?case
  proof (cases "j < 50")
    case True
    then have z: "irq j = 0" and le: "j + 1 \<le> 50" using "1.prems" by auto
    from True have rep: "50 - j = Suc (50 - (j + 1))" by simp
    have "wait_tx irq j s = wait_tx irq (j + 1) (delay_ms 10 (emit LoRaGetIRQFlags s))"
      using True z by (subst wait_tx.simps) (simp add: Let_def)
    also have "\<dots> = (50, (delay_ms 10 (emit LoRaGetIRQFlags s))
        \<lparr>trace := trace (delay_ms 10 (emit LoRaGetIRQFlags s))
                  @ concat (replicate (50 - (j + 1)) [LoRaGetIRQFlags, Delay_ms 10])\<rparr>)"
      using "1.IH" [OF True refl refl _ "1.prems"(1) le] z by simp
    finally show ?thesis
      by (simp add: rep delay_ms_def emit_def)
  next
    case False
    with "1.prems" have "j = 50" by simp
    then show ?thesis by (subst wait_tx.simps) simp
  qed
qed

lemma wait_tx_flag:
  assumes "j \<le> n" and "n < 50" and "irq n \<noteq> 0" and "\<forall>k. j \<le> k \<and> k < n \<longrightarrow> irq k = 0"
  shows "wait_tx irq j s =
         (n, s\<lparr>trace := trace s @ concat (replicate (n - j) [LoRaGetIRQFlags, Delay_ms 10])
                          @ [LoRaGetIRQFlags]\<rparr>)"
  using assms
proof (induction irq j s rule: wait_tx.induct)
  case (1 irq j s)
  from "1.prems" have lt: "j < 50" by simp
  show ?case
  proof (cases "j = n")
    case True
    with "1.prems" lt show ?thesis
      by (subst wait_tx.simps) (simp add: Let_def emit_def word_greater_zero_iff)
  next
    case False
    with "1.prems" have z: "irq j = 0" and le: "j + 1 \<le> n" by auto
    from le have rep: "n - j = Suc (n - (j + 1))" by simp
    have rest: "\<forall>k. j + 1 \<le> k \<and> k < n \<longrightarrow> irq k = 0" using "1.prems" by auto
    have "wait_tx irq j s = wait_tx irq (j + 1) (delay_ms 10 (emit LoRaGetIRQFlags s))"
      using lt z by (subst wait_tx.simps) (simp add: Let_def)
    also have "\<dots> = (n, (delay_ms 10 (emit LoRaGetIRQFlags s))
        \<lparr>trace := trace (delay_ms 10 (emit LoRaGetIRQFlags s))
                  @ concat (replicate (n - (j + 1)) [LoRaGetIRQFlags, Delay_ms 10])
                  @ [LoRaGetIRQFlags]\<rparr>)"
      using "1.IH" [OF lt refl refl _ le "1.prems"(2) "1.prems"(3) rest] z by simp
    finally show ?thesis
      by (simp add: rep delay_ms_def emit_def)
  qed
qed

lemma wait_tx_only_trace:
  "\<exists>evs. snd (wait_tx irq j s) = s\<lparr>trace := trace s @ evs\<rparr>"
proof (induction irq j s rule: wait_tx.induct)
  case (1 irq j s)
  show ?case
  proof (cases "j < 50 \<and> irq j = 0")
    case True
    then have "\<not> 0 < irq j" by simp
    with True "1.IH" [OF _ refl refl] obtain evs where
      "snd (wait_tx irq (j + 1) (delay_ms 10 (emit LoRaGetIRQFlags s)))
        = (delay_ms 10 (emit LoRaGetIRQFlags s))
            \<lparr>trace := trace (delay_ms 10 (emit LoRaGetIRQFlags s)) @ evs\<rparr>"
      by blast
    with True have "snd (wait_tx irq j s)
        = s\<lparr>trace := trace s @ ([LoRaGetIRQFlags, Delay_ms 10] @ evs)\<rparr>"
      by (subst wait_tx.simps) (simp add: Let_def delay_ms_def emit_def)
    then show ?thesis by blast
  next
    case False
    then consider "j < 50" "irq j \<noteq> 0" | "\<not> j < 50" by blast
    then show ?thesis
    proof cases
      case 1
      then have "snd (wait_tx irq j s) = s\<lparr>trace := trace s @ [LoRaGetIRQFlags]\<rparr>"
        by (subst wait_tx.simps) (simp add: Let_def emit_def word_greater_zero_iff)
      then show ?thesis by blast
    next
      case 2
      then have "snd (wait_tx irq j s) = s\<lparr>trace := trace s @ []\<rparr>"
        by (subst wait_tx.simps) simp
      then show ?thesis by blast
    qed
  qed
qed

subsection \<open>Sending, and the fault blink\<close>

lemma transmitData_with:
  assumes "snd (wait_tx irq 0
             (s\<lparr>txData := txData (buildFrame crc s),
                LATE := bitfield 2 True (LATE s),
                trace := trace s @ [LoRaStart TX_FREQ_kHz SYNC_WORD, LoRaClearIRQFlags,
                  RedLed True, LoRaTXData (txData (buildFrame crc s)) DATA_PACKET_LENGTH]\<rparr>))
         = s\<lparr>txData := txData (buildFrame crc s),
              LATE := bitfield 2 True (LATE s),
              trace := trace s @ [LoRaStart TX_FREQ_kHz SYNC_WORD, LoRaClearIRQFlags,
                  RedLed True, LoRaTXData (txData (buildFrame crc s)) DATA_PACKET_LENGTH] @ evs\<rparr>"
  shows "transmitData crc irq s =
         s\<lparr>txData := txData (buildFrame crc s),
           LATE := bitfield 2 False (bitfield 2 True (LATE s)),
           messageCount := messageCount s + 1,
           trace := trace s @ [LoRaStart TX_FREQ_kHz SYNC_WORD, LoRaClearIRQFlags,
                  RedLed True, LoRaTXData (txData (buildFrame crc s)) DATA_PACKET_LENGTH]
                  @ evs @ [LoRaSleepMode, Delay_ms 10, RedLed False]\<rparr>"
proof -
  define B where "B = txData (buildFrame crc s)"
  have bf: "buildFrame crc s = s\<lparr>txData := B\<rparr>"
    unfolding B_def by (rule buildFrame_eq)
  from assms show ?thesis
    unfolding B_def [symmetric]
    by (simp add: transmitData_def Let_def bf set_RED_LED_def emit_def delay_ms_def)
qed

lemma transmitData_general:
  "\<exists>evs. transmitData crc irq s =
         s\<lparr>txData := txData (buildFrame crc s),
           LATE := bitfield 2 False (bitfield 2 True (LATE s)),
           messageCount := messageCount s + 1,
           trace := trace s @ [LoRaStart TX_FREQ_kHz SYNC_WORD, LoRaClearIRQFlags,
                  RedLed True, LoRaTXData (txData (buildFrame crc s)) DATA_PACKET_LENGTH]
                  @ evs @ [LoRaSleepMode, Delay_ms 10, RedLed False]\<rparr>"
proof -
  let ?X = "s\<lparr>txData := txData (buildFrame crc s),
                LATE := bitfield 2 True (LATE s),
                trace := trace s @ [LoRaStart TX_FREQ_kHz SYNC_WORD, LoRaClearIRQFlags,
                  RedLed True, LoRaTXData (txData (buildFrame crc s)) DATA_PACKET_LENGTH]\<rparr>"
  from wait_tx_only_trace [of irq 0 ?X] obtain evs where
    "snd (wait_tx irq 0 ?X) = ?X\<lparr>trace := trace ?X @ evs\<rparr>" ..
  then have "snd (wait_tx irq 0 ?X) = s\<lparr>txData := txData (buildFrame crc s),
              LATE := bitfield 2 True (LATE s),
              trace := trace s @ [LoRaStart TX_FREQ_kHz SYNC_WORD, LoRaClearIRQFlags,
                  RedLed True, LoRaTXData (txData (buildFrame crc s)) DATA_PACKET_LENGTH] @ evs\<rparr>"
    by simp
  from transmitData_with [OF this] show ?thesis ..
qed

lemma transmitData_timeout:
  assumes "\<forall>k<50. irq k = 0"
  shows "transmitData crc irq s =
         s\<lparr>txData := txData (buildFrame crc s),
           LATE := bitfield 2 False (bitfield 2 True (LATE s)),
           messageCount := messageCount s + 1,
           trace := trace s @ [LoRaStart TX_FREQ_kHz SYNC_WORD, LoRaClearIRQFlags,
                  RedLed True, LoRaTXData (txData (buildFrame crc s)) DATA_PACKET_LENGTH]
                  @ concat (replicate 50 [LoRaGetIRQFlags, Delay_ms 10])
                  @ [LoRaSleepMode, Delay_ms 10, RedLed False]\<rparr>"
  by (rule transmitData_with) (simp add: wait_tx_timeout [OF assms])

lemma transmitData_flag:
  assumes "n < 50" and "irq n \<noteq> 0" and "\<forall>k<n. irq k = 0"
  shows "transmitData crc irq s =
         s\<lparr>txData := txData (buildFrame crc s),
           LATE := bitfield 2 False (bitfield 2 True (LATE s)),
           messageCount := messageCount s + 1,
           trace := trace s @ [LoRaStart TX_FREQ_kHz SYNC_WORD, LoRaClearIRQFlags,
                  RedLed True, LoRaTXData (txData (buildFrame crc s)) DATA_PACKET_LENGTH]
                  @ (concat (replicate n [LoRaGetIRQFlags, Delay_ms 10]) @ [LoRaGetIRQFlags])
                  @ [LoRaSleepMode, Delay_ms 10, RedLed False]\<rparr>"
proof -
  have "\<forall>k. 0 \<le> k \<and> k < n \<longrightarrow> irq k = 0" using assms(3) by simp
  from wait_tx_flag [OF _ assms(1,2) this, of] show ?thesis
    by (intro transmitData_with) simp
qed

lemma fault_blink_eq:
  "fault_blink s =
     s\<lparr>LATE := bitfield 2 False (bitfield 2 True (bitfield 2 False (bitfield 2 True
                 (bitfield 2 False (bitfield 2 True (LATE s)))))),
       trace := trace s @ [RedLed True, Delay_ms 300, RedLed False, Delay_ms 300,
                           RedLed True, Delay_ms 300, RedLed False, Delay_ms 300,
                           RedLed True, Delay_ms 300, RedLed False, Delay_ms 300]\<rparr>"
  by (simp add: fault_blink_def Let_def set_RED_LED_def emit_def delay_ms_def)

subsection \<open>The cycle\<close>

lemma sample_Some:
  assumes "sample env s = Some s1"
  shows "tips s1 = tips s" and "messageCount s1 = messageCount s" and "txData s1 = txData s"
    and "address s1 = address s"
    and "trace s1 = trace s @ [USART2_Start_57600, Delay_ms 5, ADC_Go 0 2, ADC_Go 1 0]"
    and "batt s1 = ucast (result_high (battery_conversion env)) * 256
                   + ucast (result_low (battery_conversion env))"
    and "temp s1 = ucast (result_high (temperature_conversion env)) * 256
                   + ucast (result_low (temperature_conversion env))"
    and "INT1E s1" and "GIE s1" and "\<not> INT1F s1"
  using assms
  by (auto simp: sample_def Let_def readBattery_def readTemperature_def start_conversion_def
      conversion_done_def read_ADRES_def configureIO_def setupAtoD_def delay_ms_def emit_def
      split: option.splits)

lemma sample_returns:
  assumes "\<not> busy (battery_conversion env) n" and "\<not> busy (temperature_conversion env) m"
  shows "\<exists>s1. sample env s = Some s1"
  by (simp add: sample_def Let_def readBattery_returns [OF assms(1)]
      readTemperature_returns [OF assms(2)])

lemma sample_hangs:
  assumes "(\<forall>n. busy (battery_conversion env) n) \<or> (\<forall>n. busy (temperature_conversion env) n)"
  shows "sample env s = None"
  using assms
  by (auto simp: sample_def Let_def readBattery_hangs readTemperature_hangs split: option.splits)

lemma cycle_eq:
  "cycle crc env s =
    (case sample env s of None \<Rightarrow> None
     | Some s1 \<Rightarrow> Some (emit Sleep (disablePeripherals (decide crc (irq_flags env) s1))))"
  by (simp add: cycle_def Let_def split: option.splits)

lemma disablePeripherals_keeps:
  "tips (disablePeripherals s) = tips s" "messageCount (disablePeripherals s) = messageCount s"
  "txData (disablePeripherals s) = txData s" "address (disablePeripherals s) = address s"
  "trace (disablePeripherals s) = trace s" "INT1E (disablePeripherals s) = INT1E s"
  "GIE (disablePeripherals s) = GIE s" "INT1F (disablePeripherals s) = INT1F s"
  "INTEDG1 (disablePeripherals s) = INTEDG1 s" "ANSELB (disablePeripherals s) = ANSELB s"
  by (simp_all add: disablePeripherals_def Let_def)

lemma transmits_iff: "transmits b \<longleftrightarrow> 500 < unat b"
  by (simp add: transmits_def BATT_UVLO_ATOD_def BATT_UVLO_def word_less_nat_alt)

lemma decide_keeps_tips: "tips (decide crc irq s) = tips s"
proof -
  obtain evs where "transmitData crc irq s =
         s\<lparr>txData := txData (buildFrame crc s),
           LATE := bitfield 2 False (bitfield 2 True (LATE s)),
           messageCount := messageCount s + 1,
           trace := trace s @ [LoRaStart TX_FREQ_kHz SYNC_WORD, LoRaClearIRQFlags,
                  RedLed True, LoRaTXData (txData (buildFrame crc s)) DATA_PACKET_LENGTH]
                  @ evs @ [LoRaSleepMode, Delay_ms 10, RedLed False]\<rparr>"
    using transmitData_general [of crc irq s] by blast
  then show ?thesis
    by (simp add: decide_def fault_blink_eq)
qed

lemma decide_keeps_interrupt:
  "INT1E (decide crc irq s) = INT1E s \<and> GIE (decide crc irq s) = GIE s
   \<and> INT1F (decide crc irq s) = INT1F s"
proof -
  obtain evs where "transmitData crc irq s =
         s\<lparr>txData := txData (buildFrame crc s),
           LATE := bitfield 2 False (bitfield 2 True (LATE s)),
           messageCount := messageCount s + 1,
           trace := trace s @ [LoRaStart TX_FREQ_kHz SYNC_WORD, LoRaClearIRQFlags,
                  RedLed True, LoRaTXData (txData (buildFrame crc s)) DATA_PACKET_LENGTH]
                  @ evs @ [LoRaSleepMode, Delay_ms 10, RedLed False]\<rparr>"
    using transmitData_general [of crc irq s] by blast
  then show ?thesis
    by (simp add: decide_def fault_blink_eq)
qed

lemma sample_surroundings_of:
  "\<exists>s1. sample (surroundings_of bh bl tmph tmpl) s = Some s1"
  by (rule sample_returns [of _ 2 2]) (simp_all add: surroundings_of_def conversion_of_def)

lemma sample_the:
  "sample (surroundings_of bh bl tmph tmpl) s
     = Some (the (sample (surroundings_of bh bl tmph tmpl) s))"
  using sample_surroundings_of [of bh bl tmph tmpl s] by auto

subsection \<open>Ports, and what the cycle keeps\<close>

lemma bit_2: "bit (2 :: int) n \<longleftrightarrow> n = 1"
  using bit_exp_iff [where ?'a = int, of 1 n] by simp

lemma bit_4: "bit (4 :: int) n \<longleftrightarrow> n = 2"
  using bit_exp_iff [where ?'a = int, of 2 n] by simp

lemma bit_8: "bit (8 :: int) n \<longleftrightarrow> n = 3"
  using bit_exp_iff [where ?'a = int, of 3 n] by simp

lemma disablePeripherals_ports:
  "TRISA (disablePeripherals s) = 0" "TRISB (disablePeripherals s) = 2"
  "TRISC (disablePeripherals s) = 0" "TRISD (disablePeripherals s) = 2"
  "TRISE (disablePeripherals s) = 0"
  "LATA (disablePeripherals s) = 4" "LATB (disablePeripherals s) = 0"
  "LATC (disablePeripherals s) = 0" "LATD (disablePeripherals s) = 8"
  "LATE (disablePeripherals s) = 0"
  by (simp_all add: disablePeripherals_def Let_def bitfield_def set_bit_eq_or)

lemma emit_ports [simp]:
  "TRIS p (emit e s) = TRIS p s" "LAT p (emit e s) = LAT p s"
  by (cases p; simp add: emit_def)+

lemma cycle_the:
  "cycle crc (surroundings_of bh bl tmph tmpl) s
     = Some (the (cycle crc (surroundings_of bh bl tmph tmpl) s))"
proof -
  from sample_surroundings_of [of bh bl tmph tmpl s] obtain s1
    where "sample (surroundings_of bh bl tmph tmpl) s = Some s1" ..
  then show ?thesis by (simp add: cycle_eq)
qed

lemma readBattery_keeps_tips: "readBattery c s = Some (r, s2) \<Longrightarrow> tips s2 = tips s"
  by (auto simp: readBattery_def Let_def start_conversion_def conversion_done_def emit_def
      split: option.splits)

lemma readTemperature_keeps_tips: "readTemperature c s = Some (r, s2) \<Longrightarrow> tips s2 = tips s"
  by (auto simp: readTemperature_def Let_def start_conversion_def conversion_done_def emit_def
      split: option.splits)

lemma cycle_keeps_tips: "cycle crc env s = Some s2 \<Longrightarrow> tips s2 = tips s"
  by (auto simp: cycle_eq emit_def disablePeripherals_keeps decide_keeps_tips sample_Some(1)
      split: option.splits)

section \<open>The claims\<close>

subsection \<open>The frame\<close>

text \<open>
  Claim C2. In the frame that transmitData builds, whatever the address, the message count,
  the two readings and the tip count are: byte 0 is 50, bytes 1-2 are 0x00 and 0x01, bytes
  3-10 are the eight address bytes, byte 11 is 0x08, bytes 12-15 are the message count,
  bytes 16-17 the battery reading, bytes 18-19 the temperature reading and bytes 24-27 the
  tip count, each with the most significant byte first (the bytes, weighted by their
  powers of 256, add up to the value), and bytes 20-23 and 28-47 are zero. For tip count 3,
  message count 7, battery 600 and temperature 450, bytes 12 to 27 are
  00 00 00 07, 02 58, 01 C2, 00 00 00 00, 00 00 00 03.
\<close>

theorem C2_frame_layout:
  assumes "well_sized s"
  shows "txData (buildFrame crc s) ! 0 = 50
       \<and> txData (buildFrame crc s) ! 1 = 0x00
       \<and> txData (buildFrame crc s) ! 2 = 0x01
       \<and> (\<forall>i<8. txData (buildFrame crc s) ! (3 + i) = address s ! i)
       \<and> txData (buildFrame crc s) ! 11 = 0x08
       \<and> unat (txData (buildFrame crc s) ! 12) * 2 ^ 24
         + unat (txData (buildFrame crc s) ! 13) * 2 ^ 16
         + unat (txData (buildFrame crc s) ! 14) * 2 ^ 8
         + unat (txData (buildFrame crc s) ! 15) = unat (messageCount s)
       \<and> unat (txData (buildFrame crc s) ! 16) * 2 ^ 8
         + unat (txData (buildFrame crc s) ! 17) = unat (batt s)
       \<and> unat (txData (buildFrame crc s) ! 18) * 2 ^ 8
         + unat (txData (buildFrame crc s) ! 19) = unat (temp s)
       \<and> (\<forall>i. 20 \<le> i \<and> i < 24 \<longrightarrow> txData (buildFrame crc s) ! i = 0)
       \<and> unat (txData (buildFrame crc s) ! 24) * 2 ^ 24
         + unat (txData (buildFrame crc s) ! 25) * 2 ^ 16
         + unat (txData (buildFrame crc s) ! 26) * 2 ^ 8
         + unat (txData (buildFrame crc s) ! 27) = unat (tips s)
       \<and> (\<forall>i. 28 \<le> i \<and> i < 48 \<longrightarrow> txData (buildFrame crc s) ! i = 0)
       \<and> (tips s = 3 \<and> messageCount s = 7 \<and> batt s = 600 \<and> temp s = 450 \<longrightarrow>
            map (\<lambda>i. txData (buildFrame crc s) ! i) [12..<28] =
              [0x00, 0x00, 0x00, 0x07, 0x02, 0x58, 0x01, 0xC2,
               0x00, 0x00, 0x00, 0x00, 0x00, 0x00, 0x00, 0x03])"
proof -
  note nth = buildFrame_nth [OF assms, of _ crc]
  have fixed: "txData (buildFrame crc s) ! 0 = 50" "txData (buildFrame crc s) ! 1 = 0x00"
    "txData (buildFrame crc s) ! 2 = 0x01" "txData (buildFrame crc s) ! 11 = 0x08"
    by (simp_all add: nth spec_frame_byte_def)
  have addr: "\<forall>i<8. txData (buildFrame crc s) ! (3 + i) = address s ! i"
    by (simp add: nth spec_frame_byte_def)
  have mc: "unat (txData (buildFrame crc s) ! 12) * 2 ^ 24
         + unat (txData (buildFrame crc s) ! 13) * 2 ^ 16
         + unat (txData (buildFrame crc s) ! 14) * 2 ^ 8
         + unat (txData (buildFrame crc s) ! 15) = unat (messageCount s)"
    using be32_plain [of "messageCount s"] by (simp add: nth spec_frame_byte_def)
  have tp: "unat (txData (buildFrame crc s) ! 24) * 2 ^ 24
         + unat (txData (buildFrame crc s) ! 25) * 2 ^ 16
         + unat (txData (buildFrame crc s) ! 26) * 2 ^ 8
         + unat (txData (buildFrame crc s) ! 27) = unat (tips s)"
    using be32_plain [of "tips s"] by (simp add: nth spec_frame_byte_def)
  have b: "unat (txData (buildFrame crc s) ! 16) * 2 ^ 8
         + unat (txData (buildFrame crc s) ! 17) = unat (batt s)"
    using be16_plain [of "batt s"] by (simp add: nth spec_frame_byte_def)
  have t: "unat (txData (buildFrame crc s) ! 18) * 2 ^ 8
         + unat (txData (buildFrame crc s) ! 19) = unat (temp s)"
    using be16_plain [of "temp s"] by (simp add: nth spec_frame_byte_def)
  have z1: "\<forall>i. 20 \<le> i \<and> i < 24 \<longrightarrow> txData (buildFrame crc s) ! i = 0"
    by (simp add: nth spec_frame_byte_def)
  have z2: "\<forall>i. 28 \<le> i \<and> i < 48 \<longrightarrow> txData (buildFrame crc s) ! i = 0"
    by (simp add: nth spec_frame_byte_def)
  have sc: "tips s = 3 \<and> messageCount s = 7 \<and> batt s = 600 \<and> temp s = 450 \<longrightarrow>
            map (\<lambda>i. txData (buildFrame crc s) ! i) [12..<28] =
              [0x00, 0x00, 0x00, 0x07, 0x02, 0x58, 0x01, 0xC2,
               0x00, 0x00, 0x00, 0x00, 0x00, 0x00, 0x00, 0x03]"
    by (simp add: nth spec_frame_byte_def upt_rec)
  from fixed addr mc tp b t z1 z2 sc show ?thesis
    by (simp only: simp_thms)
qed

theorem C2_witness:
  "well_sized scenario
   \<and> txData (buildFrame byte_sum scenario) ! 0 = 0x32
   \<and> txData (buildFrame byte_sum scenario) ! 3 = 0xE6
   \<and> txData (buildFrame byte_sum scenario) ! 11 = 0x08
   \<and> map (\<lambda>i. txData (buildFrame byte_sum scenario) ! i) [12..<28] =
         [0x00, 0x00, 0x00, 0x07, 0x02, 0x58, 0x01, 0xC2,
          0x00, 0x00, 0x00, 0x00, 0x00, 0x00, 0x00, 0x03]
   \<and> txData (buildFrame byte_sum scenario) ! 47 = 0"
proof -
  have w: "well_sized scenario"
    by (simp add: well_sized_def scenario_def power_on_def DATA_PACKET_LENGTH_def)
  have v: "tips scenario = 3 \<and> messageCount scenario = 7 \<and> batt scenario = 600
           \<and> temp scenario = 450" "address scenario ! 0 = 0xE6"
    by (simp_all add: scenario_def power_on_def)
  note c = C2_frame_layout [OF w, of byte_sum]
  from c have q: "\<forall>i<8. txData (buildFrame byte_sum scenario) ! (3 + i) = address scenario ! i"
    by (elim conjE)
  from q [rule_format, of 0] have a: "txData (buildFrame byte_sum scenario) ! 3 = address scenario ! 0"
    by simp
  from c have z: "txData (buildFrame byte_sum scenario) ! 47 = 0"
    by simp
  from c v a z w show ?thesis
    by simp
qed

text \<open>
  Claim C3. The checksum of a frame is the value of the checksum function on the first 48
  bytes of that frame (bytes 0-47, which the two checksum bytes written afterwards do not
  touch); its low byte is stored at offset 48 and its high byte at offset 49.
\<close>

theorem C3_checksum:
  assumes "well_sized s"
  shows "length (txData (buildFrame crc s)) = 50
       \<and> take 48 (txData (buildFrame crc s)) = take 48 (txData (frame_body s))
       \<and> unat (txData (buildFrame crc s) ! 48)
           = unat (crc (take 48 (txData (buildFrame crc s)))) mod 256
       \<and> unat (txData (buildFrame crc s) ! 49)
           = unat (crc (take 48 (txData (buildFrame crc s)))) div 256"
proof -
  from assms have len: "length (txData s) = 50"
    by (simp add: well_sized_def DATA_PACKET_LENGTH_def)
  let ?c = "crc (take 48 (txData (frame_body s)))"
  have "unat ?c < 2 ^ 16" using unsigned_less [of ?c] by simp
  then have "unat ?c div 256 < 256" by simp
  then have hi: "unat (ucast (drop_bit 8 (?c AND 0xFF00)) :: 8 word) = unat ?c div 256"
    by (simp add: crc_hi_word low_byte unat_drop_bit_eq drop_bit_eq_div [where ?'a = nat])
  show ?thesis
    using len hi by (simp add: buildFrame_take buildFrame_crc low_byte)
qed

theorem C3_witness:
  "well_sized scenario
   \<and> length (txData (buildFrame byte_sum scenario)) = 50
   \<and> unat (txData (buildFrame byte_sum scenario) ! 48)
       = unat (byte_sum (take 48 (txData (buildFrame byte_sum scenario)))) mod 256
   \<and> unat (txData (buildFrame byte_sum scenario) ! 49)
       = unat (byte_sum (take 48 (txData (buildFrame byte_sum scenario)))) div 256"
proof -
  have w: "well_sized scenario"
    by (simp add: well_sized_def scenario_def power_on_def DATA_PACKET_LENGTH_def)
  from C3_checksum [OF w, of byte_sum] w show ?thesis
    by simp
qed

text \<open>
  Claim C9. Building the frame is deterministic: two devices that agree on the address,
  the message count, the two readings and the tip count get the same 50 bytes, whatever
  their transmit buffers held before.
\<close>

theorem C9_frame_deterministic:
  assumes "well_sized s1" and "well_sized s2"
    and "address s1 = address s2" and "messageCount s1 = messageCount s2"
    and "batt s1 = batt s2" and "temp s1 = temp s2" and "tips s1 = tips s2"
  shows "txData (buildFrame crc s1) = txData (buildFrame crc s2)
       \<and> length (txData (buildFrame crc s1)) = 50"
  using assms frame_same_inputs [of s1 s2 crc]
  by (simp add: well_sized_def DATA_PACKET_LENGTH_def)

theorem C9_witness:
  "well_sized scenario \<and> well_sized (scenario\<lparr>txData := replicate 50 0xAA\<rparr>)
   \<and> txData (buildFrame byte_sum scenario)
       = txData (buildFrame byte_sum (scenario\<lparr>txData := replicate 50 0xAA\<rparr>))"
proof -
  have w: "well_sized scenario" "well_sized (scenario\<lparr>txData := replicate 50 0xAA\<rparr>)"
    by (simp_all add: well_sized_def scenario_def power_on_def DATA_PACKET_LENGTH_def)
  from C9_frame_deterministic [OF w, of byte_sum] w show ?thesis
    by simp
qed

subsection \<open>The transmit sequencer\<close>

text \<open>
  Claim C4. If the status flags read zero at every poll, the poll loop ends with its counter
  at 50 after 50 reads of the flags, each followed by a delay of 10 ms; after the loop the
  transceiver is commanded into sleep mode and the message counter is incremented by one
  (modulo \<open>2 ^ 32\<close>, the counter being 32 bits wide). When a nonzero flag is read at poll
  \<open>n < 50\<close>, the loop ends after that read and the same steps follow: the sleep command, the
  delay, the increment of the message counter and the red LED going off.
\<close>

theorem C4_timeout:
  assumes "\<forall>k<50. irq k = 0"
  shows "fst (wait_tx irq 0 s) = 50
       \<and> trace (transmitData crc irq s) =
           trace s @ [LoRaStart TX_FREQ_kHz SYNC_WORD, LoRaClearIRQFlags, RedLed True,
                      LoRaTXData (txData (buildFrame crc s)) 50]
                   @ concat (replicate 50 [LoRaGetIRQFlags, Delay_ms 10])
                   @ [LoRaSleepMode, Delay_ms 10, RedLed False]
       \<and> messageCount (transmitData crc irq s) = messageCount s + 1
       \<and> unat (messageCount (transmitData crc irq s)) = (unat (messageCount s) + 1) mod 2 ^ 32
       \<and> (\<forall>n flags. n < 50 \<and> flags n \<noteq> 0 \<and> (\<forall>k<n. flags k = 0) \<longrightarrow>
             trace (transmitData crc flags s) =
               trace s @ [LoRaStart TX_FREQ_kHz SYNC_WORD, LoRaClearIRQFlags, RedLed True,
                          LoRaTXData (txData (buildFrame crc s)) 50]
                       @ concat (replicate n [LoRaGetIRQFlags, Delay_ms 10]) @ [LoRaGetIRQFlags]
                       @ [LoRaSleepMode, Delay_ms 10, RedLed False]
             \<and> messageCount (transmitData crc flags s) = messageCount s + 1)"
proof -
  have polls: "fst (wait_tx irq 0 s) = 50"
    by (simp add: wait_tx_timeout [OF assms])
  have tr: "trace (transmitData crc irq s) =
           trace s @ [LoRaStart TX_FREQ_kHz SYNC_WORD, LoRaClearIRQFlags, RedLed True,
                      LoRaTXData (txData (buildFrame crc s)) 50]
                   @ concat (replicate 50 [LoRaGetIRQFlags, Delay_ms 10])
                   @ [LoRaSleepMode, Delay_ms 10, RedLed False]"
    by (simp add: transmitData_timeout [OF assms] DATA_PACKET_LENGTH_def)
  have mc: "messageCount (transmitData crc irq s) = messageCount s + 1"
    by (simp add: transmitData_timeout [OF assms])
  have wrap: "unat (messageCount (transmitData crc irq s)) = (unat (messageCount s) + 1) mod 2 ^ 32"
    by (simp add: mc unat_word_ariths)
  have other: "trace (transmitData crc flags s) =
               trace s @ [LoRaStart TX_FREQ_kHz SYNC_WORD, LoRaClearIRQFlags, RedLed True,
                          LoRaTXData (txData (buildFrame crc s)) 50]
                       @ concat (replicate n [LoRaGetIRQFlags, Delay_ms 10]) @ [LoRaGetIRQFlags]
                       @ [LoRaSleepMode, Delay_ms 10, RedLed False]
             \<and> messageCount (transmitData crc flags s) = messageCount s + 1"
    if "n < 50 \<and> flags n \<noteq> 0 \<and> (\<forall>k<n. flags k = 0)" for n flags
    using that by (simp add: transmitData_flag [of n flags] DATA_PACKET_LENGTH_def)
  from polls tr mc wrap other show ?thesis
    by blast
qed

theorem C4_witness:
  "fst (wait_tx (\<lambda>k. 0) 0 scenario) = 50
   \<and> trace (transmitData byte_sum (\<lambda>k. 0) scenario) =
        [LoRaStart 866500 0x55, LoRaClearIRQFlags, RedLed True,
         LoRaTXData (txData (buildFrame byte_sum scenario)) 50]
        @ concat (replicate 50 [LoRaGetIRQFlags, Delay_ms 10])
        @ [LoRaSleepMode, Delay_ms 10, RedLed False]
   \<and> messageCount (transmitData byte_sum (\<lambda>k. 0) scenario) = 8
   \<and> trace (transmitData byte_sum (\<lambda>k. if k < 3 then 0 else 8) scenario) =
        [LoRaStart 866500 0x55, LoRaClearIRQFlags, RedLed True,
         LoRaTXData (txData (buildFrame byte_sum scenario)) 50,
         LoRaGetIRQFlags, Delay_ms 10, LoRaGetIRQFlags, Delay_ms 10, LoRaGetIRQFlags, Delay_ms 10,
         LoRaGetIRQFlags, LoRaSleepMode, Delay_ms 10, RedLed False]
   \<and> messageCount (transmitData byte_sum (\<lambda>k. if k < 3 then 0 else 8) scenario) = 8"
proof -
  have h: "\<forall>k<50. (\<lambda>k. 0 :: 8 word) k = 0" by simp
  note c = C4_timeout [OF h, of scenario byte_sum]
  have v: "trace scenario = []" "messageCount scenario = 7"
    by (simp_all add: scenario_def power_on_def)
  from c have q: "\<forall>n flags. n < 50 \<and> flags n \<noteq> 0 \<and> (\<forall>k<n. flags k = 0) \<longrightarrow>
             trace (transmitData byte_sum flags scenario) =
               trace scenario @ [LoRaStart TX_FREQ_kHz SYNC_WORD, LoRaClearIRQFlags, RedLed True,
                          LoRaTXData (txData (buildFrame byte_sum scenario)) 50]
                       @ concat (replicate n [LoRaGetIRQFlags, Delay_ms 10]) @ [LoRaGetIRQFlags]
                       @ [LoRaSleepMode, Delay_ms 10, RedLed False]
             \<and> messageCount (transmitData byte_sum flags scenario) = messageCount scenario + 1"
    by (elim conjE)
  have "(3::nat) < 50 \<and> (\<lambda>k::nat. if k < 3 then 0 else (8 :: 8 word)) 3 \<noteq> 0
        \<and> (\<forall>k<3. (\<lambda>k::nat. if k < 3 then 0 else (8 :: 8 word)) k = 0)"
    by simp
  from q [rule_format, OF this] have f:
    "trace (transmitData byte_sum (\<lambda>k. if k < 3 then 0 else 8) scenario) =
        [LoRaStart 866500 0x55, LoRaClearIRQFlags, RedLed True,
         LoRaTXData (txData (buildFrame byte_sum scenario)) 50,
         LoRaGetIRQFlags, Delay_ms 10, LoRaGetIRQFlags, Delay_ms 10, LoRaGetIRQFlags, Delay_ms 10,
         LoRaGetIRQFlags, LoRaSleepMode, Delay_ms 10, RedLed False]"
    "messageCount (transmitData byte_sum (\<lambda>k. if k < 3 then 0 else 8) scenario) = 8"
    by (simp_all add: v TX_FREQ_kHz_def SYNC_WORD_def numeral_3_eq_3)
  from c f show ?thesis
    by (simp add: v TX_FREQ_kHz_def SYNC_WORD_def)
qed

subsection \<open>The threshold decision\<close>

text \<open>
  Claim C1 says that a battery reading of exactly 500 takes the transmit branch. The test
  in main is \<open>batt > 500\<close>: at 500 the device blinks the red LED and calls no transceiver
  function.
\<close>

theorem C1_counterexample:
  "\<not> transmits 500
   \<and> decide byte_sum (\<lambda>k. 8) (scenario\<lparr>batt := 500\<rparr>) = fault_blink (scenario\<lparr>batt := 500\<rparr>)
   \<and> filter is_lora (trace (decide byte_sum (\<lambda>k. 8) (scenario\<lparr>batt := 500\<rparr>))) = []"
  by (simp add: transmits_iff decide_def fault_blink_eq scenario_def power_on_def)

text \<open>
  Claim C1, as the code has it: the transmit branch is taken if and only if the battery
  reading is greater than 500; 501 transmits, 500 and 499 skip. The cycle continues with
  the bring-down and the sleep instruction on either branch.
\<close>

theorem C1_strict_threshold:
  "(transmits b \<longleftrightarrow> 500 < unat b)
   \<and> transmits 501 \<and> \<not> transmits 500 \<and> \<not> transmits 499
   \<and> decide crc irq s = (if 500 < unat (batt s) then transmitData crc irq s else fault_blink s)
   \<and> (\<forall>s1. sample env s = Some s1 \<longrightarrow>
        cycle crc env s =
          Some (emit Sleep (disablePeripherals
            (if 500 < unat (batt s1) then transmitData crc (irq_flags env) s1
             else fault_blink s1))))"
  by (simp add: transmits_iff decide_def cycle_eq)

theorem C1_witness:
  "sample (surroundings_of 1 245 1 194) power_on
     = Some (the (sample (surroundings_of 1 245 1 194) power_on))
   \<and> unat (batt (the (sample (surroundings_of 1 245 1 194) power_on))) = 501
   \<and> cycle byte_sum (surroundings_of 1 245 1 194) power_on
     = Some (emit Sleep (disablePeripherals
         (transmitData byte_sum (irq_flags (surroundings_of 1 245 1 194))
            (the (sample (surroundings_of 1 245 1 194) power_on)))))
   \<and> sample (surroundings_of 1 244 1 194) power_on
     = Some (the (sample (surroundings_of 1 244 1 194) power_on))
   \<and> unat (batt (the (sample (surroundings_of 1 244 1 194) power_on))) = 500
   \<and> cycle byte_sum (surroundings_of 1 244 1 194) power_on
     = Some (emit Sleep (disablePeripherals
         (fault_blink (the (sample (surroundings_of 1 244 1 194) power_on)))))"
proof -
  let ?e1 = "surroundings_of 1 245 1 194" and ?e0 = "surroundings_of 1 244 1 194"
  have s1: "sample ?e1 power_on = Some (the (sample ?e1 power_on))"
    and s0: "sample ?e0 power_on = Some (the (sample ?e0 power_on))"
    by (rule sample_the)+
  have b1: "unat (batt (the (sample ?e1 power_on))) = 501"
    using sample_Some(6) [OF s1] by (simp add: surroundings_of_def conversion_of_def)
  have b0: "unat (batt (the (sample ?e0 power_on))) = 500"
    using sample_Some(6) [OF s0] by (simp add: surroundings_of_def conversion_of_def)
  from C1_strict_threshold [where crc = byte_sum and env = ?e1 and s = power_on]
  have c1: "cycle byte_sum ?e1 power_on =
          Some (emit Sleep (disablePeripherals
            (if 500 < unat (batt (the (sample ?e1 power_on)))
             then transmitData byte_sum (irq_flags ?e1) (the (sample ?e1 power_on))
             else fault_blink (the (sample ?e1 power_on)))))"
    using s1 by blast
  from C1_strict_threshold [where crc = byte_sum and env = ?e0 and s = power_on]
  have c0: "cycle byte_sum ?e0 power_on =
          Some (emit Sleep (disablePeripherals
            (if 500 < unat (batt (the (sample ?e0 power_on)))
             then transmitData byte_sum (irq_flags ?e0) (the (sample ?e0 power_on))
             else fault_blink (the (sample ?e0 power_on)))))"
    using s0 by blast
  from c1 c0 show ?thesis
    unfolding b1 b0 using s1 s0 by simp
qed

subsection \<open>The interrupt handler\<close>

text \<open>
  Claim C10. Called with the INT1 flag set, the handler turns the red LED on, besides
  incrementing the tip counter and clearing the flag, and changes nothing else; called with
  the flag clear, it leaves the whole state as it is.
\<close>

theorem C10_isr_effect:
  "(INT1F s \<longrightarrow>
      RED_LED (Isr s) \<and> tips (Isr s) = tips s + 1 \<and> \<not> INT1F (Isr s)
      \<and> Isr s = s\<lparr>tips := tips s + 1, INT1F := False, LATE := set_bit 2 (LATE s),
                   trace := trace s @ [RedLed True]\<rparr>)
   \<and> (\<not> INT1F s \<longrightarrow> Isr s = s)"
  by (simp add: Isr_def Let_def set_RED_LED_def emit_def RED_LED_def bitfield_def bit_simps)

theorem C10_witness:
  "\<not> RED_LED (power_on\<lparr>INT1F := True\<rparr>)
   \<and> RED_LED (Isr (power_on\<lparr>INT1F := True\<rparr>))
   \<and> tips (Isr (power_on\<lparr>INT1F := True\<rparr>)) = 1
   \<and> \<not> INT1F (Isr (power_on\<lparr>INT1F := True\<rparr>))
   \<and> Isr power_on = power_on"
proof -
  have h: "INT1F (power_on\<lparr>INT1F := True\<rparr>)" "\<not> INT1F power_on"
    "tips (power_on\<lparr>INT1F := True\<rparr>) = 0" "\<not> RED_LED (power_on\<lparr>INT1F := True\<rparr>)"
    by (simp_all add: power_on_def RED_LED_def)
  from C10_isr_effect [of "power_on\<lparr>INT1F := True\<rparr>"] h(1)
  have a: "RED_LED (Isr (power_on\<lparr>INT1F := True\<rparr>))
           \<and> tips (Isr (power_on\<lparr>INT1F := True\<rparr>)) = tips (power_on\<lparr>INT1F := True\<rparr>) + 1
           \<and> \<not> INT1F (Isr (power_on\<lparr>INT1F := True\<rparr>))"
    by blast
  from C10_isr_effect [of power_on] h(2) have b: "Isr power_on = power_on"
    by blast
  from a b h(4) show ?thesis
    unfolding h(3) by simp
qed

subsection \<open>The bring-down\<close>

text \<open>
  Claim C5 says that after disablePeripherals every pin except RB1 is an output driving
  low. Three more pins are not: RA2 drives high (it switches the external circuitry off),
  RD1 is an input (the SPI data input) and RD3 drives high (the chip select of the
  transceiver).
\<close>

theorem C5_counterexample:
  "\<not> output_low (disablePeripherals power_on) PortA 2
   \<and> \<not> output_low (disablePeripherals power_on) PortD 1
   \<and> \<not> output_low (disablePeripherals power_on) PortD 3"
  by (simp add: output_low_def disablePeripherals_ports bit_2 bit_4 bit_8)

text \<open>
  Claim C5, as the code has it: after disablePeripherals every pin of ports A to E other
  than RB1, RD1, RA2 and RD3 is an output driving low; RB1 and RD1 are inputs; RA2 and RD3
  are outputs driving high. disablePeripherals does not touch the INT1 enable bit, the
  INT1 flag, the global interrupt enable or the edge selection, and at the end of every
  cycle RB1 is an input with INT1 and the global interrupt enabled and the INT1 flag clear.
\<close>

theorem C5_quiesce:
  "(\<forall>p n. n < 8 \<and> (p, n) \<notin> {(PortB, 1), (PortD, 1), (PortA, 2), (PortD, 3)} \<longrightarrow>
       output_low (disablePeripherals s) p n)
   \<and> is_input (disablePeripherals s) PortB 1
   \<and> is_input (disablePeripherals s) PortD 1
   \<and> output_high (disablePeripherals s) PortA 2
   \<and> output_high (disablePeripherals s) PortD 3
   \<and> INT1E (disablePeripherals s) = INT1E s
   \<and> INT1F (disablePeripherals s) = INT1F s
   \<and> GIE (disablePeripherals s) = GIE s
   \<and> INTEDG1 (disablePeripherals s) = INTEDG1 s
   \<and> (\<forall>s2. cycle crc env s = Some s2 \<longrightarrow>
         is_input s2 PortB 1 \<and> INT1E s2 \<and> GIE s2 \<and> \<not> INT1F s2)"
proof -
  have pins: "output_low (disablePeripherals s) p n"
    if "n < 8 \<and> (p, n) \<notin> {(PortB, 1), (PortD, 1), (PortA, 2), (PortD, 3)}" for p n
    using that
    by (cases p) (auto simp: output_low_def disablePeripherals_ports bit_2 bit_4 bit_8)
  have special: "is_input (disablePeripherals s) PortB 1"
    "is_input (disablePeripherals s) PortD 1"
    "output_high (disablePeripherals s) PortA 2"
    "output_high (disablePeripherals s) PortD 3"
    by (simp_all add: is_input_def output_high_def disablePeripherals_ports bit_2 bit_4 bit_8)
  have after: "is_input s2 PortB 1 \<and> INT1E s2 \<and> GIE s2 \<and> \<not> INT1F s2"
    if "cycle crc env s = Some s2" for s2
  proof -
    from that obtain s1 where s1: "sample env s = Some s1"
      and s2: "s2 = emit Sleep (disablePeripherals (decide crc (irq_flags env) s1))"
      by (auto simp: cycle_eq split: option.splits)
    from sample_Some(8-10) [OF s1] decide_keeps_interrupt [of crc "irq_flags env" s1]
    show ?thesis
      by (simp add: s2 is_input_def disablePeripherals_ports disablePeripherals_keeps bit_2
          emit_def)
  qed
  from pins special after show ?thesis
    by (simp add: disablePeripherals_keeps)
qed

theorem C5_witness:
  "output_low (disablePeripherals power_on) PortA 0
   \<and> output_low (disablePeripherals power_on) PortB 0
   \<and> output_low (disablePeripherals power_on) PortE 2
   \<and> is_input (disablePeripherals power_on) PortB 1
   \<and> is_input (the (cycle byte_sum (surroundings_of 1 245 1 194) power_on)) PortB 1
   \<and> INT1E (the (cycle byte_sum (surroundings_of 1 245 1 194) power_on))"
proof -
  let ?e = "surroundings_of 1 245 1 194"
  have c: "cycle byte_sum ?e power_on = Some (the (cycle byte_sum ?e power_on))"
    by (rule cycle_the)
  note q = C5_quiesce [of power_on byte_sum ?e]
  from q have p: "\<forall>p n. n < 8 \<and> (p, n) \<notin> {(PortB, 1), (PortD, 1), (PortA, 2), (PortD, 3)} \<longrightarrow>
       output_low (disablePeripherals power_on) p n"
    by (elim conjE)
  have "output_low (disablePeripherals power_on) PortA 0"
    "output_low (disablePeripherals power_on) PortB 0"
    "output_low (disablePeripherals power_on) PortE 2"
    by (rule p [rule_format], simp)+
  moreover from q c have "is_input (the (cycle byte_sum ?e power_on)) PortB 1
      \<and> INT1E (the (cycle byte_sum ?e power_on))"
    by blast
  moreover from q have "is_input (disablePeripherals power_on) PortB 1"
    by (elim conjE)
  ultimately show ?thesis by simp
qed

subsection \<open>The analogue sampler\<close>

text \<open>
  Claim C6. On every call, each of the two readings has its reference and its channel
  selected when the conversion starts, starts a conversion, waits until the conversion flag
  reads clear and returns \<open>ADRESH * 256 + ADRESL\<close>, which fits the 16-bit result.
  readTemperature selects Vdd as reference (\<open>PVCFG = 0\<close>) and channel 1 itself.
  readBattery selects the internal reference (\<open>PVCFG = 2\<close>) itself; its channel 0 is
  selected by setupAtoD, and the only call of readBattery, in every pass of main, is the
  one after configureIO, setupAtoD and the delay of 5 ms, whatever state the previous pass
  has left. So the conversions of every cycle are channel 0 with the internal reference,
  then channel 1 with Vdd. If the flag never reads clear, neither function returns.
\<close>

theorem C6_readings:
  "(\<not> busy c n \<longrightarrow>
      readBattery c (delay_ms 5 (setupAtoD (configureIO s))) =
        Some (ucast (result_high c) * 256 + ucast (result_low c),
              (delay_ms 5 (setupAtoD (configureIO s)))
                \<lparr>PVCFG := 2, GO_NOT_DONE := False, ADRESH := result_high c,
                 ADRESL := result_low c,
                 trace := trace (delay_ms 5 (setupAtoD (configureIO s))) @ [ADC_Go 0 2]\<rparr>)
      \<and> (CHS s = 0 \<longrightarrow>
           readBattery c s =
             Some (ucast (result_high c) * 256 + ucast (result_low c),
                   s\<lparr>PVCFG := 2, GO_NOT_DONE := False, ADRESH := result_high c,
                     ADRESL := result_low c, trace := trace s @ [ADC_Go 0 2]\<rparr>))
      \<and> readTemperature c s =
        Some (ucast (result_high c) * 256 + ucast (result_low c),
              s\<lparr>PVCFG := 0, CHS := 1, GO_NOT_DONE := False, ADRESH := result_high c,
                ADRESL := result_low c, trace := trace s @ [ADC_Go 1 0]\<rparr>))
   \<and> unat (ucast (result_high c) * 256 + ucast (result_low c) :: 16 word)
       = unat (result_high c) * 256 + unat (result_low c)
   \<and> ((\<forall>k. busy c k) \<longrightarrow> readBattery c s = None \<and> readTemperature c s = None)
   \<and> CHS (delay_ms 5 (setupAtoD (configureIO s))) = 0
   \<and> sample env s =
        (case readBattery (battery_conversion env) (delay_ms 5 (setupAtoD (configureIO s))) of
           None \<Rightarrow> None
         | Some (b, s1) \<Rightarrow>
            (case readTemperature (temperature_conversion env) (s1\<lparr>batt := b\<rparr>) of
               None \<Rightarrow> None
             | Some (t, s2) \<Rightarrow> Some (s2\<lparr>temp := t\<rparr>)))
   \<and> (\<forall>s1. sample env s = Some s1 \<longrightarrow>
         trace s1 = trace s @ [USART2_Start_57600, Delay_ms 5, ADC_Go 0 2, ADC_Go 1 0]
         \<and> batt s1 = ucast (result_high (battery_conversion env)) * 256
                     + ucast (result_low (battery_conversion env))
         \<and> temp s1 = ucast (result_high (temperature_conversion env)) * 256
                     + ucast (result_low (temperature_conversion env)))"
proof -
  let ?s0 = "delay_ms 5 (setupAtoD (configureIO s))"
  have chan: "CHS ?s0 = 0"
    by (simp add: delay_ms_def emit_def setupAtoD_def configureIO_def Let_def)
  have call: "\<not> busy c n \<longrightarrow>
      readBattery c ?s0 =
        Some (ucast (result_high c) * 256 + ucast (result_low c),
              ?s0\<lparr>PVCFG := 2, GO_NOT_DONE := False, ADRESH := result_high c,
                 ADRESL := result_low c, trace := trace ?s0 @ [ADC_Go 0 2]\<rparr>)"
    using readBattery_returns [of c n ?s0] by (simp only: chan) blast
  have zero: "\<not> busy c n \<longrightarrow> CHS s = 0 \<longrightarrow>
           readBattery c s =
             Some (ucast (result_high c) * 256 + ucast (result_low c),
                   s\<lparr>PVCFG := 2, GO_NOT_DONE := False, ADRESH := result_high c,
                     ADRESL := result_low c, trace := trace s @ [ADC_Go 0 2]\<rparr>)"
    using readBattery_returns [of c n s] by auto
  have tmp: "\<not> busy c n \<longrightarrow>
      readTemperature c s =
        Some (ucast (result_high c) * 256 + ucast (result_low c),
              s\<lparr>PVCFG := 0, CHS := 1, GO_NOT_DONE := False, ADRESH := result_high c,
                ADRESL := result_low c, trace := trace s @ [ADC_Go 1 0]\<rparr>)"
    using readTemperature_returns [of c n s] by blast
  have hang: "(\<forall>k. busy c k) \<longrightarrow> readBattery c s = None \<and> readTemperature c s = None"
    by (simp add: readBattery_hangs readTemperature_hangs)
  have smp: "sample env s =
        (case readBattery (battery_conversion env) ?s0 of
           None \<Rightarrow> None
         | Some (b, s1) \<Rightarrow>
            (case readTemperature (temperature_conversion env) (s1\<lparr>batt := b\<rparr>) of
               None \<Rightarrow> None
             | Some (t, s2) \<Rightarrow> Some (s2\<lparr>temp := t\<rparr>)))"
    by (simp add: sample_def Let_def split: option.splits)
  have cyc: "\<forall>s1. sample env s = Some s1 \<longrightarrow>
         trace s1 = trace s @ [USART2_Start_57600, Delay_ms 5, ADC_Go 0 2, ADC_Go 1 0]
         \<and> batt s1 = ucast (result_high (battery_conversion env)) * 256
                     + ucast (result_low (battery_conversion env))
         \<and> temp s1 = ucast (result_high (temperature_conversion env)) * 256
                     + ucast (result_low (temperature_conversion env))"
    by (simp add: sample_Some(5,6,7))
  from call zero tmp hang chan smp cyc ADRES_value [of "result_high c" "result_low c"]
  show ?thesis
    by (simp only: simp_thms) blast
qed

theorem C6_witness:
  "readBattery (conversion_of 2 88) (delay_ms 5 (setupAtoD (configureIO power_on))) =
     Some (600, (delay_ms 5 (setupAtoD (configureIO power_on)))
              \<lparr>PVCFG := 2, GO_NOT_DONE := False, ADRESH := 2, ADRESL := 88,
               trace := [USART2_Start_57600, Delay_ms 5, ADC_Go 0 2]\<rparr>)
   \<and> readTemperature (conversion_of 1 194) power_on =
     Some (450, power_on\<lparr>PVCFG := 0, CHS := 1, GO_NOT_DONE := False, ADRESH := 1,
              ADRESL := 194, trace := [ADC_Go 1 0]\<rparr>)
   \<and> readBattery stuck_conversion power_on = None
   \<and> readTemperature stuck_conversion power_on = None
   \<and> trace (the (sample (surroundings_of 2 88 1 194) (power_on\<lparr>CHS := 1\<rparr>))) =
       [USART2_Start_57600, Delay_ms 5, ADC_Go 0 2, ADC_Go 1 0]
   \<and> batt (the (sample (surroundings_of 2 88 1 194) (power_on\<lparr>CHS := 1\<rparr>))) = 600
   \<and> temp (the (sample (surroundings_of 2 88 1 194) (power_on\<lparr>CHS := 1\<rparr>))) = 450"
proof -
  let ?s0 = "delay_ms 5 (setupAtoD (configureIO power_on))"
  let ?e = "surroundings_of 2 88 1 194"
  have nb: "\<not> busy (conversion_of 2 88) 2" "\<not> busy (conversion_of 1 194) 2"
    and st: "\<forall>k. busy stuck_conversion k"
    by (simp_all add: conversion_of_def stuck_conversion_def)
  have v: "trace ?s0 = [USART2_Start_57600, Delay_ms 5]" "trace power_on = []"
    "trace (power_on\<lparr>CHS := 1\<rparr>) = []"
    by (simp_all add: delay_ms_def emit_def setupAtoD_def configureIO_def Let_def power_on_def)
  have r: "result_high (conversion_of 2 88) = 2" "result_low (conversion_of 2 88) = 88"
    "result_high (conversion_of 1 194) = 1" "result_low (conversion_of 1 194) = 194"
    "battery_conversion ?e = conversion_of 2 88" "temperature_conversion ?e = conversion_of 1 194"
    by (simp_all add: conversion_of_def surroundings_of_def)
  from C6_readings [of "conversion_of 2 88" 2 power_on] nb(1)
  have a: "readBattery (conversion_of 2 88) ?s0 =
     Some (600, ?s0\<lparr>PVCFG := 2, GO_NOT_DONE := False, ADRESH := 2, ADRESL := 88,
               trace := [USART2_Start_57600, Delay_ms 5, ADC_Go 0 2]\<rparr>)"
    unfolding r v by simp
  from C6_readings [of "conversion_of 1 194" 2 power_on] nb(2)
  have b: "readTemperature (conversion_of 1 194) power_on =
     Some (450, power_on\<lparr>PVCFG := 0, CHS := 1, GO_NOT_DONE := False, ADRESH := 1,
              ADRESL := 194, trace := [ADC_Go 1 0]\<rparr>)"
    unfolding r v by simp
  from C6_readings [of stuck_conversion _ power_on] st
  have c: "readBattery stuck_conversion power_on = None
           \<and> readTemperature stuck_conversion power_on = None"
    by blast
  from C6_readings [of _ _ "power_on\<lparr>CHS := 1\<rparr>" ?e]
    sample_the [of 2 88 1 194 "power_on\<lparr>CHS := 1\<rparr>"]
  have d: "trace (the (sample ?e (power_on\<lparr>CHS := 1\<rparr>))) =
       trace (power_on\<lparr>CHS := 1\<rparr>) @ [USART2_Start_57600, Delay_ms 5, ADC_Go 0 2, ADC_Go 1 0]
     \<and> batt (the (sample ?e (power_on\<lparr>CHS := 1\<rparr>))) = ucast (result_high (battery_conversion ?e)) * 256
                     + ucast (result_low (battery_conversion ?e))
     \<and> temp (the (sample ?e (power_on\<lparr>CHS := 1\<rparr>))) = ucast (result_high (temperature_conversion ?e)) * 256
                     + ucast (result_low (temperature_conversion ?e))"
    by blast
  from d have d': "trace (the (sample ?e (power_on\<lparr>CHS := 1\<rparr>))) =
       [USART2_Start_57600, Delay_ms 5, ADC_Go 0 2, ADC_Go 1 0]
     \<and> batt (the (sample ?e (power_on\<lparr>CHS := 1\<rparr>))) = 600
     \<and> temp (the (sample ?e (power_on\<lparr>CHS := 1\<rparr>))) = 450"
    unfolding r v by simp
  from a b c d' show ?thesis
    by (simp only: simp_thms)
qed

subsection \<open>The under-voltage branch\<close>

text \<open>
  Claim C7. When both conversions complete and the battery reading is below 500, the cycle
  returns; the message counter and the transmit buffer are as before the cycle; what the
  device does is the bring-up, the two conversions, the three flashes of the red LED and
  the sleep instruction, with no call of a transceiver function; and the cycle ends with
  disablePeripherals and the sleep instruction, as it does on the transmit path.
\<close>

theorem C7_undervoltage:
  assumes "\<not> busy (battery_conversion env) n" and "\<not> busy (temperature_conversion env) m"
    and "unat (result_high (battery_conversion env)) * 256
         + unat (result_low (battery_conversion env)) < 500"
  shows "\<exists>s1 s2. sample env s = Some s1 \<and> unat (batt s1) < 500
       \<and> cycle crc env s = Some s2
       \<and> s2 = emit Sleep (disablePeripherals (fault_blink s1))
       \<and> messageCount s2 = messageCount s
       \<and> txData s2 = txData s
       \<and> trace s2 = trace s @ [USART2_Start_57600, Delay_ms 5, ADC_Go 0 2, ADC_Go 1 0,
                                RedLed True, Delay_ms 300, RedLed False, Delay_ms 300,
                                RedLed True, Delay_ms 300, RedLed False, Delay_ms 300,
                                RedLed True, Delay_ms 300, RedLed False, Delay_ms 300,
                                Sleep]
       \<and> filter is_lora (trace s2) = filter is_lora (trace s)
       \<and> (\<forall>env2 s3. sample env2 s = Some s3 \<and> 500 < unat (batt s3) \<longrightarrow>
             cycle crc env2 s =
               Some (emit Sleep (disablePeripherals (transmitData crc (irq_flags env2) s3))))"
proof -
  from sample_returns [OF assms(1,2)] obtain s1 where s1: "sample env s = Some s1" ..
  have low: "unat (batt s1) < 500"
    using assms(3) by (simp add: sample_Some(6) [OF s1] ADRES_value)
  then have skip: "\<not> transmits (batt s1)"
    by (simp add: transmits_iff)
  define s2 where "s2 = emit Sleep (disablePeripherals (fault_blink s1))"
  have cyc: "cycle crc env s = Some s2"
    using skip by (simp add: cycle_eq s1 decide_def s2_def)
  have mc: "messageCount s2 = messageCount s" and tx: "txData s2 = txData s"
    by (simp_all add: s2_def emit_def disablePeripherals_keeps fault_blink_eq sample_Some [OF s1])
  have tr: "trace s2 = trace s @ [USART2_Start_57600, Delay_ms 5, ADC_Go 0 2, ADC_Go 1 0,
                                RedLed True, Delay_ms 300, RedLed False, Delay_ms 300,
                                RedLed True, Delay_ms 300, RedLed False, Delay_ms 300,
                                RedLed True, Delay_ms 300, RedLed False, Delay_ms 300,
                                Sleep]"
    by (simp add: s2_def emit_def disablePeripherals_keeps fault_blink_eq sample_Some(5) [OF s1])
  have quiet: "filter is_lora (trace s2) = filter is_lora (trace s)"
    by (simp add: tr)
  have other: "cycle crc env2 s =
               Some (emit Sleep (disablePeripherals (transmitData crc (irq_flags env2) s3)))"
    if "sample env2 s = Some s3 \<and> 500 < unat (batt s3)" for env2 s3
    using that by (simp add: cycle_eq decide_def transmits_iff)
  from s1 low cyc mc tx tr quiet other show ?thesis
    unfolding s2_def by blast
qed

theorem C7_witness:
  "\<exists>s2. cycle byte_sum (surroundings_of 1 243 1 194) power_on = Some s2
       \<and> messageCount s2 = 0
       \<and> txData s2 = replicate 50 0
       \<and> trace s2 = [USART2_Start_57600, Delay_ms 5, ADC_Go 0 2, ADC_Go 1 0,
                     RedLed True, Delay_ms 300, RedLed False, Delay_ms 300,
                     RedLed True, Delay_ms 300, RedLed False, Delay_ms 300,
                     RedLed True, Delay_ms 300, RedLed False, Delay_ms 300,
                     Sleep]"
proof -
  let ?e = "surroundings_of 1 243 1 194"
  have h: "\<not> busy (battery_conversion ?e) 2" "\<not> busy (temperature_conversion ?e) 2"
    "unat (result_high (battery_conversion ?e)) * 256
         + unat (result_low (battery_conversion ?e)) < 500"
    by (simp_all add: surroundings_of_def conversion_of_def)
  have v: "messageCount power_on = 0" "txData power_on = replicate 50 0" "trace power_on = []"
    by (simp_all add: power_on_def)
  from C7_undervoltage [OF h, of power_on byte_sum] show ?thesis
    unfolding v by auto
qed

subsection \<open>The tip counter\<close>

text \<open>
  Claim C8. The tip counter is zero at power-on. The interrupt handler, called with the INT1
  flag set, adds one to it (modulo \<open>2 ^ 32\<close>, the counter being 32 bits wide) and clears
  the flag; called with the flag clear it leaves the counter alone. No other function of
  main.c changes the counter: not main's first statement, configureIO, setupAtoD, the two
  readings, the frame building, transmitData, the fault blink or disablePeripherals, and
  so not a whole cycle.
\<close>

theorem C8_tip_counter:
  "tips power_on = 0
   \<and> (INT1F s \<longrightarrow> tips (Isr s) = tips s + 1 \<and> \<not> INT1F (Isr s)
         \<and> unat (tips (Isr s)) = (unat (tips s) + 1) mod 2 ^ 32)
   \<and> (\<not> INT1F s \<longrightarrow> tips (Isr s) = tips s)
   \<and> tips (main_entry s) = tips s
   \<and> tips (configureIO s) = tips s
   \<and> tips (setupAtoD s) = tips s
   \<and> (\<forall>r s2. readBattery c s = Some (r, s2) \<longrightarrow> tips s2 = tips s)
   \<and> (\<forall>r s2. readTemperature c s = Some (r, s2) \<longrightarrow> tips s2 = tips s)
   \<and> tips (buildFrame crc s) = tips s
   \<and> tips (transmitData crc irq s) = tips s
   \<and> tips (fault_blink s) = tips s
   \<and> tips (disablePeripherals s) = tips s
   \<and> (\<forall>s2. cycle crc env s = Some s2 \<longrightarrow> tips s2 = tips s)"
proof -
  have isr: "INT1F s \<longrightarrow> tips (Isr s) = tips s + 1 \<and> \<not> INT1F (Isr s)
         \<and> unat (tips (Isr s)) = (unat (tips s) + 1) mod 2 ^ 32"
    by (simp add: Isr_def Let_def set_RED_LED_def emit_def unat_word_ariths)
  have isr0: "\<not> INT1F s \<longrightarrow> tips (Isr s) = tips s"
    by (simp add: Isr_def)
  have plain: "tips power_on = 0" "tips (main_entry s) = tips s" "tips (configureIO s) = tips s"
    "tips (setupAtoD s) = tips s" "tips (fault_blink s) = tips s"
    "tips (disablePeripherals s) = tips s"
    by (simp_all add: power_on_def main_entry_def configureIO_def setupAtoD_def Let_def
        emit_def fault_blink_eq disablePeripherals_keeps)
  have bf: "tips (buildFrame crc s) = tips s"
    by (subst buildFrame_eq) simp
  have tx: "tips (transmitData crc irq s) = tips s"
    using transmitData_general [of crc irq s] by auto
  from isr isr0 plain bf tx show ?thesis
    using readBattery_keeps_tips [of c s] readTemperature_keeps_tips [of c s]
      cycle_keeps_tips [of crc env s]
    by blast
qed

theorem C8_witness:
  "tips (Isr (power_on\<lparr>INT1F := True\<rparr>)) = 1
   \<and> \<not> INT1F (Isr (power_on\<lparr>INT1F := True\<rparr>))
   \<and> tips (Isr power_on) = 0
   \<and> tips (snd (the (readBattery (conversion_of 2 88) power_on))) = 0
   \<and> tips (snd (the (readTemperature (conversion_of 1 194) power_on))) = 0
   \<and> tips (the (cycle byte_sum (surroundings_of 2 88 1 194) power_on)) = 0"
proof -
  have h: "INT1F (power_on\<lparr>INT1F := True\<rparr>)" "\<not> INT1F power_on"
    "tips (power_on\<lparr>INT1F := True\<rparr>) = 0" "tips power_on = 0"
    by (simp_all add: power_on_def)
  have nb: "\<not> busy (conversion_of 2 88) 2" "\<not> busy (conversion_of 1 194) 2"
    by (simp_all add: conversion_of_def)
  have rb: "readBattery (conversion_of 2 88) power_on
      = Some (fst (the (readBattery (conversion_of 2 88) power_on)),
              snd (the (readBattery (conversion_of 2 88) power_on)))"
    by (simp add: readBattery_returns [OF nb(1)])
  have rt: "readTemperature (conversion_of 1 194) power_on
      = Some (fst (the (readTemperature (conversion_of 1 194) power_on)),
              snd (the (readTemperature (conversion_of 1 194) power_on)))"
    by (simp add: readTemperature_returns [OF nb(2)])
  have cy: "cycle byte_sum (surroundings_of 2 88 1 194) power_on
      = Some (the (cycle byte_sum (surroundings_of 2 88 1 194) power_on))"
    by (rule cycle_the)
  from C8_tip_counter [of "power_on\<lparr>INT1F := True\<rparr>"] h(1)
  have a: "tips (Isr (power_on\<lparr>INT1F := True\<rparr>)) = tips (power_on\<lparr>INT1F := True\<rparr>) + 1
           \<and> \<not> INT1F (Isr (power_on\<lparr>INT1F := True\<rparr>))"
    by blast
  note c = C8_tip_counter [of power_on "conversion_of 2 88" byte_sum _ "surroundings_of 2 88 1 194"]
  note d = C8_tip_counter [of power_on "conversion_of 1 194"]
  from c h(2) have b: "tips (Isr power_on) = tips power_on" by blast
  from c rb have e: "tips (snd (the (readBattery (conversion_of 2 88) power_on))) = tips power_on"
    by blast
  from d rt have f: "tips (snd (the (readTemperature (conversion_of 1 194) power_on))) = tips power_on"
    by blast
  from c cy have g: "tips (the (cycle byte_sum (surroundings_of 2 88 1 194) power_on)) = tips power_on"
    by blast
  from a b e f g show ?thesis
    unfolding h(3) h(4) by simp
qed

end
